theory Spec2Isabelle
  imports Main "HOL-Library.AList"
begin

section \<open>The Helm daemon: session registry, router and transport\<close>

text \<open>
  A shallow embedding of the daemon (\<^verbatim>\<open>daemon/state.ts\<close>, \<^verbatim>\<open>daemon/handlers.ts\<close>,
  \<^verbatim>\<open>daemon/chrome.ts\<close>, \<^verbatim>\<open>daemon/server.ts\<close>, \<^verbatim>\<open>shared/config.ts\<close>,
  \<^verbatim>\<open>shared/protocol.ts\<close>). The module-level mutable bindings become one record that
  every handler takes and returns. The daemon runs on a single-threaded event loop: each
  event handler, together with the promise continuations it wakes, runs to completion
  before the next event is looked at, so one event is one function application. What a
  handler writes to a socket is appended to the field \<open>effects\<close>.

  An \<^verbatim>\<open>await\<close> on a promise that an event settles later splits a function in two: the part
  before the \<^verbatim>\<open>await\<close> stores its closure as data (a \<open>cont\<close> in the pending table, a
  \<open>waiter\<close> for the polling loop) and the part after it is a function of that data.
  All reads of \<^verbatim>\<open>Date.now()\<close> during one event return the time the event carries.

  A \<^verbatim>\<open>send\<close> that throws is caught and logged by the code; \<open>effects\<close> records the
  call. Logging, the HTTP status endpoint, the pid file and \<^verbatim>\<open>stopServer\<close> are left out.
\<close>

subsection \<open>Values on the wire\<close>

text \<open>Parsed JSON. Numbers are JavaScript numbers; only integers are modelled.\<close>

datatype json =
    JNull
  | JBool bool
  | JNum int
  | JStr string
  | JArr "json list"
  | JObj "(string \<times> json) list"

text \<open>JavaScript truthiness, as used by \<^verbatim>\<open>!x\<close>, \<^verbatim>\<open>x && y\<close> and \<^verbatim>\<open>x || y\<close>.\<close>

definition truthy :: "json \<Rightarrow> bool" where
  "truthy v =
     (case v of
        JNull \<Rightarrow> False
      | JBool b \<Rightarrow> b
      | JNum n \<Rightarrow> n \<noteq> 0
      | JStr s \<Rightarrow> s \<noteq> []
      | JArr _ \<Rightarrow> True
      | JObj _ \<Rightarrow> True)"

text \<open>
  \<^verbatim>\<open>(result as any)?.windowId\<close>: the property of an object payload, \<^verbatim>\<open>undefined\<close>
  otherwise. \<^verbatim>\<open>undefined\<close> is written \<open>JNull\<close>: the one test made on the value is its
  truthiness. A payload the message does not carry is \<open>None\<close>.
\<close>

definition get_windowId :: "json option \<Rightarrow> json" where
  "get_windowId payload =
     (case payload of
        Some (JObj fields) \<Rightarrow> (case map_of fields ''windowId'' of Some v \<Rightarrow> v | None \<Rightarrow> JNull)
      | _ \<Rightarrow> JNull)"

text \<open>A WebSocket object; \<^verbatim>\<open>===\<close> on sockets is equality of handles.\<close>

type_synonym ws = nat

type_synonym params = "(string \<times> json) list"

subsection \<open>\<^verbatim>\<open>shared/config.ts\<close>\<close>

definition WS_PORT :: nat where
  "WS_PORT = 9876"

definition PROTOCOL_VERSION :: nat where
  "PROTOCOL_VERSION = 3"

definition REQUEST_TIMEOUT_MS :: nat where
  "REQUEST_TIMEOUT_MS = 30000"

definition EXTENSION_CONNECT_TIMEOUT_MS :: nat where
  "EXTENSION_CONNECT_TIMEOUT_MS = 15000"

definition CLIENT_KEEPALIVE_TIMEOUT_MS :: nat where
  "CLIENT_KEEPALIVE_TIMEOUT_MS = 60000"

definition CHROME_PATHS :: "string list" where
  "CHROME_PATHS =
     [''/usr/bin/google-chrome-stable'',
      ''/usr/bin/google-chrome'',
      ''/usr/bin/chromium'',
      ''/usr/bin/chromium-browser'',
      ''/opt/google/chrome/chrome'']"

subsection \<open>\<^verbatim>\<open>shared/protocol.ts\<close>: messages\<close>

text \<open>
  An inbound message after \<^verbatim>\<open>JSON.parse\<close>, by its \<^verbatim>\<open>type\<close> field, with the fields the
  handlers read. An optional field that is absent is \<open>None\<close>. \<open>Other\<close> is a message of any
  other type (the legacy format among them), with the six fields the dispatcher and the
  legacy handler look at: \<^verbatim>\<open>sessionId\<close>, \<^verbatim>\<open>reqId\<close>, \<^verbatim>\<open>command\<close>, \<^verbatim>\<open>id\<close>, \<^verbatim>\<open>error\<close>,
  \<^verbatim>\<open>result\<close>. \<open>Unparsable\<close> is a frame on which \<^verbatim>\<open>JSON.parse\<close> throws. The fields are,
  in the order of the constructors: of \<^verbatim>\<open>hello\<close>, \<^verbatim>\<open>payload.profileId\<close> and
  \<^verbatim>\<open>payload.capabilities\<close>; of \<^verbatim>\<open>register\<close>, \<^verbatim>\<open>sessionId\<close> and \<^verbatim>\<open>label\<close>; of
  \<^verbatim>\<open>command\<close>, \<^verbatim>\<open>reqId\<close>, \<^verbatim>\<open>sessionId\<close>, \<^verbatim>\<open>command\<close> and \<^verbatim>\<open>params\<close>; of
  \<^verbatim>\<open>route_result\<close>, \<^verbatim>\<open>reqId\<close> and \<^verbatim>\<open>payload\<close>; of \<^verbatim>\<open>error\<close>, \<^verbatim>\<open>reqId\<close> and
  \<^verbatim>\<open>payload.message\<close>; of \<^verbatim>\<open>tab_closed\<close>, \<^verbatim>\<open>payload.tabId\<close> and \<^verbatim>\<open>tabId\<close>; of
  \<^verbatim>\<open>window_closed\<close>, \<^verbatim>\<open>payload.sessionId\<close>. The extension sends \<^verbatim>\<open>window_closed\<close> and
  \<^verbatim>\<open>pong\<close> with no \<^verbatim>\<open>sessionId\<close> at the top level, so the dispatcher hands them to the
  extension handler.
\<close>

datatype message =
    Hello "string option" "string list option"
  | Register string string
  | Unregister string
  | Command string string string params
  | Keepalive "string option"
  | RouteResult "string option" "json option"
  | ErrorMsg "string option" "string option"
  | TabClosed "int option" "int option"
  | WindowClosed "string option"
  | Pong
  | Other "string option" "string option" "string option" "string option" "string option" "json option"
  | Unparsable

record session_info =
  si_sessionId :: string
  si_label :: string
  si_windowId :: json
  si_lastSeen :: nat
  si_status :: string

datatype out_message =
    ORegistered string bool
  | OResponse string string "json option"
  | OError string string string string
  | ORoute string string string params
  | OWelcome string nat "session_info list"
  | OSessions "session_info list" "(int \<times> string) list"
  | OPing

text \<open>What the daemon does to a socket: \<^verbatim>\<open>ws.send(JSON.stringify(m))\<close> and \<^verbatim>\<open>ws.close(code, reason)\<close>.\<close>

datatype action =
    Send ws out_message
  | CloseConn ws nat string

record client_session =
  cs_sessionId :: string
  cs_label :: string
  cs_ws :: ws
  cs_windowId :: json
  cs_registeredAt :: nat
  cs_lastSeen :: nat

record extension_connection =
  ec_ws :: ws
  ec_profileId :: string
  ec_capabilities :: "string list"
  ec_connectedAt :: nat

text \<open>
  The closure of \<^verbatim>\<open>handleCommand\<close> suspended at one of its two awaits on
  \<^verbatim>\<open>sendCommandToExtension\<close>: \<open>AwaitCreateWindow clientWs reqId sessionId command params\<close>
  at the \<^verbatim>\<open>create_window\<close> sub-request, \<open>AwaitCommand clientWs reqId sessionId\<close> at the
  forwarded command.
\<close>

datatype cont =
    AwaitCreateWindow ws string string string params
  | AwaitCommand ws string string

text \<open>
  \<^verbatim>\<open>PendingRequest\<close>: \<^verbatim>\<open>resolve\<close> and \<^verbatim>\<open>reject\<close> are the two ways into the suspended
  closure. The \<^verbatim>\<open>timeout\<close> handle is the time at which the timer of the request is due.
  The timer lives and dies with the entry: request ids are never reused, and every path
  that deletes an entry clears its timer first, so the timer of a request can fire only
  while its entry is in the table.
\<close>

record pending_request =
  pr_cont :: cont
  pr_timeout :: nat
  pr_sessionId :: string

text \<open>A \<^verbatim>\<open>handleCommand\<close> suspended in the polling loop of \<^verbatim>\<open>ensureExtensionConnected\<close>.\<close>

record waiter =
  w_clientWs :: ws
  w_reqId :: string
  w_sessionId :: string
  w_command :: string
  w_params :: params
  w_startTime :: nat

subsection \<open>\<^verbatim>\<open>daemon/state.ts\<close>\<close>

text \<open>
  A JavaScript \<^verbatim>\<open>Map\<close> is an association list in insertion order: \<^verbatim>\<open>set\<close> is
  \<open>AList.update\<close> (in place for a key that is there, at the end otherwise), \<^verbatim>\<open>delete\<close> is
  \<open>AList.delete\<close>, \<^verbatim>\<open>get\<close> is \<open>map_of\<close>.
\<close>

record state =
  clientSessions :: "(string \<times> client_session) list"
  windowCache :: "string set"
  extensionConnection :: "extension_connection option"
  tabRouting :: "(int \<times> string) list"
  pendingRequests :: "(string \<times> pending_request) list"
  requestIdCounter :: nat
  chromeProcess :: "nat option"
  connectWaiters :: "waiter list"
  effects :: "action list"

definition init :: state where
  "init =
     \<lparr>clientSessions = [], windowCache = {}, extensionConnection = None, tabRouting = [],
      pendingRequests = [], requestIdCounter = 0, chromeProcess = None, connectWaiters = [],
      effects = []\<rparr>"

text \<open>\<^verbatim>\<open>Number.prototype.toString(radix)\<close> on a natural number, for a radix from 2 to 36.\<close>

definition digit_char :: "nat \<Rightarrow> char" where
  "digit_char d = ''0123456789abcdefghijklmnopqrstuvwxyz'' ! d"

function radix :: "nat \<Rightarrow> nat \<Rightarrow> string" where
  "radix b n = (if b < 2 \<or> n < b then [digit_char n] else radix b (n div b) @ [digit_char (n mod b)])"
  by pat_completeness auto
termination
  by (relation "measure snd") auto

declare radix.simps [simp del]

text \<open>\<^verbatim>\<open>`req_${++requestIdCounter}_${Date.now().toString(36)}`\<close>\<close>

definition generateRequestId :: "nat \<Rightarrow> state \<Rightarrow> string \<times> state" where
  "generateRequestId now s =
     (let c = requestIdCounter s + 1
      in (''req_'' @ radix 10 c @ ''_'' @ radix 36 now, s\<lparr>requestIdCounter := c\<rparr>))"

definition registerClient :: "string \<Rightarrow> string \<Rightarrow> ws \<Rightarrow> nat \<Rightarrow> state \<Rightarrow> state" where
  "registerClient sessionId label w now s =
     s\<lparr>clientSessions :=
         AList.update sessionId
           \<lparr>cs_sessionId = sessionId, cs_label = label, cs_ws = w, cs_windowId = JNull,
            cs_registeredAt = now, cs_lastSeen = now\<rparr>
           (clientSessions s)\<rparr>"

definition unregisterClient :: "string \<Rightarrow> state \<Rightarrow> state" where
  "unregisterClient sessionId s =
     (case map_of (clientSessions s) sessionId of
        None \<Rightarrow> s
      | Some session \<Rightarrow>
          s\<lparr>clientSessions := AList.delete sessionId (clientSessions s),
            windowCache := windowCache s - {sessionId},
            tabRouting := filter (\<lambda>(tabId, sid). sid \<noteq> sessionId) (tabRouting s)\<rparr>)"

definition updateClientLastSeen :: "string \<Rightarrow> nat \<Rightarrow> state \<Rightarrow> state" where
  "updateClientLastSeen sessionId now s =
     (case map_of (clientSessions s) sessionId of
        None \<Rightarrow> s
      | Some session \<Rightarrow>
          s\<lparr>clientSessions :=
              AList.update sessionId (session\<lparr>cs_lastSeen := now\<rparr>) (clientSessions s)\<rparr>)"

definition setClientWindowId :: "string \<Rightarrow> json \<Rightarrow> state \<Rightarrow> state" where
  "setClientWindowId sessionId windowId s =
     (case map_of (clientSessions s) sessionId of
        None \<Rightarrow> s
      | Some session \<Rightarrow>
          s\<lparr>clientSessions :=
              AList.update sessionId (session\<lparr>cs_windowId := windowId\<rparr>) (clientSessions s),
            windowCache :=
              (if windowId \<noteq> JNull then insert sessionId (windowCache s) else windowCache s)\<rparr>)"

definition getSessionList :: "state \<Rightarrow> session_info list" where
  "getSessionList s =
     map (\<lambda>(k, c).
            \<lparr>si_sessionId = cs_sessionId c, si_label = cs_label c, si_windowId = cs_windowId c,
             si_lastSeen = cs_lastSeen c,
             si_status = (if truthy (cs_windowId c) then ''ready'' else ''pending'')\<rparr>)
         (clientSessions s)"

definition clearAllWindowIds :: "state \<Rightarrow> state" where
  "clearAllWindowIds s =
     s\<lparr>clientSessions := map (\<lambda>(k, c). (k, c\<lparr>cs_windowId := JNull\<rparr>)) (clientSessions s),
       windowCache := {},
       tabRouting := []\<rparr>"

subsection \<open>\<^verbatim>\<open>daemon/handlers.ts\<close>: helpers\<close>

definition sendToExtension :: "out_message \<Rightarrow> state \<Rightarrow> state" where
  "sendToExtension m s =
     (case extensionConnection s of
        None \<Rightarrow> s
      | Some c \<Rightarrow> s\<lparr>effects := effects s @ [Send (ec_ws c) m]\<rparr>)"

definition sendResponseToClient :: "ws \<Rightarrow> string \<Rightarrow> string \<Rightarrow> json option \<Rightarrow> state \<Rightarrow> state" where
  "sendResponseToClient w reqId sessionId payload s =
     s\<lparr>effects := effects s @ [Send w (OResponse reqId sessionId payload)]\<rparr>"

definition sendErrorToClient :: "ws \<Rightarrow> string \<Rightarrow> string \<Rightarrow> string \<Rightarrow> string \<Rightarrow> state \<Rightarrow> state" where
  "sendErrorToClient w reqId sessionId code msg s =
     s\<lparr>effects := effects s @ [Send w (OError reqId sessionId code msg)]\<rparr>"

definition broadcastSessionsToExtension :: "state \<Rightarrow> state" where
  "broadcastSessionsToExtension s =
     (if extensionConnection s \<noteq> None
      then sendToExtension (OSessions (getSessionList s) (tabRouting s)) s
      else s)"

text \<open>
  \<^verbatim>\<open>handleCommand\<close> resumed by a rejection of the promise it awaits: the \<^verbatim>\<open>catch\<close> block
  of the \<^verbatim>\<open>try\<close> it is suspended in.
\<close>

definition resume_reject :: "cont \<Rightarrow> string \<Rightarrow> state \<Rightarrow> state" where
  "resume_reject k msg s =
     (case k of
        AwaitCreateWindow clientWs reqId sessionId command ps \<Rightarrow>
          sendErrorToClient clientWs reqId sessionId ''WINDOW_CREATION_FAILED'' msg s
      | AwaitCommand clientWs reqId sessionId \<Rightarrow>
          sendErrorToClient clientWs reqId sessionId ''COMMAND_FAILED'' msg s)"

text \<open>
  \<^verbatim>\<open>sendCommandToExtension\<close>, with the closure \<open>k\<close> that awaits the promise. The spread
  \<^verbatim>\<open>{ ...params, sessionId }\<close> overwrites a \<^verbatim>\<open>sessionId\<close> key of \<^verbatim>\<open>params\<close> and adds
  it otherwise.
\<close>

definition sendCommandToExtension :: "string \<Rightarrow> params \<Rightarrow> string \<Rightarrow> cont \<Rightarrow> nat \<Rightarrow> state \<Rightarrow> state" where
  "sendCommandToExtension command ps sessionId k now s =
     (case extensionConnection s of
        None \<Rightarrow> resume_reject k ''Extension not connected'' s
      | Some c \<Rightarrow>
          (let (reqId, s1) = generateRequestId now s;
               s2 = s1\<lparr>pendingRequests :=
                         AList.update reqId
                           \<lparr>pr_cont = k, pr_timeout = now + REQUEST_TIMEOUT_MS,
                            pr_sessionId = sessionId\<rparr>
                           (pendingRequests s1)\<rparr>;
               paramsWithSession = AList.update ''sessionId'' (JStr sessionId) ps
           in sendToExtension (ORoute reqId sessionId command paramsWithSession) s2))"

text \<open>\<^verbatim>\<open>handleCommand\<close> resumed by the resolution of the promise it awaits.\<close>

definition resume_resolve :: "cont \<Rightarrow> json option \<Rightarrow> nat \<Rightarrow> state \<Rightarrow> state" where
  "resume_resolve k payload now s =
     (case k of
        AwaitCreateWindow clientWs reqId sessionId command ps \<Rightarrow>
          (if \<not> truthy (get_windowId payload)
           then sendErrorToClient clientWs reqId sessionId ''WINDOW_CREATION_FAILED''
                  ''Window creation failed: no windowId returned'' s
           else sendCommandToExtension command ps sessionId (AwaitCommand clientWs reqId sessionId) now
                  (setClientWindowId sessionId (get_windowId payload) s))
      | AwaitCommand clientWs reqId sessionId \<Rightarrow>
          sendResponseToClient clientWs reqId sessionId payload s)"

subsection \<open>\<^verbatim>\<open>daemon/chrome.ts\<close>\<close>

text \<open>
  What the daemon sees of the machine it runs on: \<^verbatim>\<open>existsSync\<close>, and \<^verbatim>\<open>Bun.spawn\<close>,
  which returns a process with a pid or throws (\<open>None\<close>).
\<close>

record env =
  fs_exists :: "string \<Rightarrow> bool"
  spawn :: "string \<Rightarrow> nat option"

definition findChrome :: "env \<Rightarrow> string option" where
  "findChrome e = find (fs_exists e) CHROME_PATHS"

definition startChrome :: "env \<Rightarrow> state \<Rightarrow> bool \<times> state" where
  "startChrome e s =
     (case chromeProcess s of
        Some proc \<Rightarrow> (True, s)
      | None \<Rightarrow>
          (case findChrome e of
             None \<Rightarrow> (False, s)
           | Some chromePath \<Rightarrow>
               (case spawn e chromePath of
                  None \<Rightarrow> (False, s)
                | Some pid \<Rightarrow> (True, s\<lparr>chromeProcess := Some pid\<rparr>))))"

text \<open>
  One evaluation of the head of the loop of \<^verbatim>\<open>ensureExtensionConnected\<close>:
  \<^verbatim>\<open>while (Date.now() - startTime < timeoutMs) { if (extensionConnection) return true; sleep }\<close>
  and \<^verbatim>\<open>return false\<close> behind it.
\<close>

datatype poll = Connected | Sleeping | TimedOut

definition connect_loop_head :: "nat \<Rightarrow> nat \<Rightarrow> nat \<Rightarrow> state \<Rightarrow> poll" where
  "connect_loop_head startTime timeoutMs now s =
     (if int now - int startTime < int timeoutMs
      then (if extensionConnection s \<noteq> None then Connected else Sleeping)
      else TimedOut)"

subsection \<open>\<^verbatim>\<open>daemon/handlers.ts\<close>: client messages\<close>

definition handleRegister :: "string \<Rightarrow> string \<Rightarrow> ws \<Rightarrow> nat \<Rightarrow> state \<Rightarrow> state" where
  "handleRegister sessionId label w now s =
     (let s1 = registerClient sessionId label w now s;
          s2 = s1\<lparr>effects := effects s1 @ [Send w (ORegistered sessionId True)]\<rparr>
      in broadcastSessionsToExtension s2)"

definition handleUnregister :: "string \<Rightarrow> nat \<Rightarrow> state \<Rightarrow> state" where
  "handleUnregister sessionId now s =
     (let s1 =
            (case map_of (clientSessions s) sessionId of
               None \<Rightarrow> s
             | Some session \<Rightarrow>
                 (if truthy (cs_windowId session) \<and> extensionConnection s \<noteq> None
                  then (let (reqId, s') = generateRequestId now s
                        in sendToExtension
                             (ORoute reqId sessionId ''close_window'' [(''sessionId'', JStr sessionId)]) s')
                  else s))
      in broadcastSessionsToExtension (unregisterClient sessionId s1))"

text \<open>
  \<^verbatim>\<open>handleCommand\<close> from the comment \<^verbatim>\<open>Ensure session has a window\<close> on, up to the first
  \<^verbatim>\<open>await\<close> it reaches.
\<close>

definition handleCommand_connected ::
    "ws \<Rightarrow> string \<Rightarrow> string \<Rightarrow> string \<Rightarrow> params \<Rightarrow> nat \<Rightarrow> state \<Rightarrow> state" where
  "handleCommand_connected clientWs reqId sessionId command ps now s =
     (if sessionId \<notin> windowCache s
      then sendCommandToExtension ''create_window'' [(''sessionId'', JStr sessionId)] sessionId
             (AwaitCreateWindow clientWs reqId sessionId command ps) now s
      else sendCommandToExtension command ps sessionId
             (AwaitCommand clientWs reqId sessionId) now s)"

text \<open>
  \<^verbatim>\<open>handleCommand\<close> at the head of the polling loop of \<^verbatim>\<open>ensureExtensionConnected\<close>,
  called with the default \<^verbatim>\<open>timeoutMs\<close>.
\<close>

definition resume_connect_wait :: "waiter \<Rightarrow> nat \<Rightarrow> state \<Rightarrow> state" where
  "resume_connect_wait wt now s =
     (case connect_loop_head (w_startTime wt) EXTENSION_CONNECT_TIMEOUT_MS now s of
        Sleeping \<Rightarrow> s\<lparr>connectWaiters := connectWaiters s @ [wt]\<rparr>
      | Connected \<Rightarrow>
          handleCommand_connected (w_clientWs wt) (w_reqId wt) (w_sessionId wt) (w_command wt)
            (w_params wt) now s
      | TimedOut \<Rightarrow>
          sendErrorToClient (w_clientWs wt) (w_reqId wt) (w_sessionId wt) ''EXTENSION_NOT_CONNECTED''
            ''Extension not connected and Chrome failed to start'' s)"

definition handleCommand ::
    "string \<Rightarrow> string \<Rightarrow> string \<Rightarrow> params \<Rightarrow> ws \<Rightarrow> nat \<Rightarrow> env \<Rightarrow> state \<Rightarrow> state" where
  "handleCommand reqId sessionId command ps clientWs now e s =
     (case extensionConnection s of
        Some c \<Rightarrow> handleCommand_connected clientWs reqId sessionId command ps now s
      | None \<Rightarrow>
          (let (chromeStarted, s1) = startChrome e s
           in if \<not> chromeStarted
              then sendErrorToClient clientWs reqId sessionId ''EXTENSION_NOT_CONNECTED''
                     ''Extension not connected and Chrome failed to start'' s1
              else resume_connect_wait
                     \<lparr>w_clientWs = clientWs, w_reqId = reqId, w_sessionId = sessionId,
                      w_command = command, w_params = ps, w_startTime = now\<rparr> now s1))"

text \<open>
  The timer of the \<^verbatim>\<open>sleep\<close> of the \<open>n\<close>-th suspended \<^verbatim>\<open>ensureExtensionConnected\<close>
  fires: the loop head is evaluated again, and the command stays suspended when the loop
  sleeps once more.
\<close>

definition connect_poll :: "nat \<Rightarrow> nat \<Rightarrow> state \<Rightarrow> state" where
  "connect_poll n now s =
     (if n < length (connectWaiters s)
      then (let wt = connectWaiters s ! n
            in case connect_loop_head (w_startTime wt) EXTENSION_CONNECT_TIMEOUT_MS now s of
                 Sleeping \<Rightarrow> s
               | _ \<Rightarrow>
                   resume_connect_wait wt now
                     (s\<lparr>connectWaiters :=
                         take n (connectWaiters s) @ drop (Suc n) (connectWaiters s)\<rparr>))
      else s)"

definition handleClientMessage :: "message \<Rightarrow> ws \<Rightarrow> nat \<Rightarrow> env \<Rightarrow> state \<Rightarrow> state" where
  "handleClientMessage m w now e s =
     (case m of
        Register sessionId label \<Rightarrow> handleRegister sessionId label w now s
      | Unregister sessionId \<Rightarrow> handleUnregister sessionId now s
      | Command reqId sessionId command ps \<Rightarrow> handleCommand reqId sessionId command ps w now e s
      | Keepalive sid \<Rightarrow>
          (case sid of None \<Rightarrow> s | Some sessionId \<Rightarrow> updateClientLastSeen sessionId now s)
      | _ \<Rightarrow> s)"

subsection \<open>\<^verbatim>\<open>daemon/handlers.ts\<close>: extension messages\<close>

definition handleExtensionHello :: "string option \<Rightarrow> string list option \<Rightarrow> ws \<Rightarrow> nat \<Rightarrow> state \<Rightarrow> state" where
  "handleExtensionHello profileId capabilities w now s =
     (let s1 = clearAllWindowIds s;
          s2 = s1\<lparr>extensionConnection :=
                    Some \<lparr>ec_ws = w,
                          ec_profileId =
                            (case profileId of
                               Some p \<Rightarrow> (if p \<noteq> [] then p else ''default'')
                             | None \<Rightarrow> ''default''),
                          ec_capabilities = (case capabilities of Some cs \<Rightarrow> cs | None \<Rightarrow> []),
                          ec_connectedAt = now\<rparr>\<rparr>;
          s3 = sendToExtension
                 (OWelcome (''helm-daemon-'' @ radix 10 WS_PORT) PROTOCOL_VERSION (getSessionList s2)) s2
      in broadcastSessionsToExtension s3)"

text \<open>
  \<^verbatim>\<open>handleRouteResult\<close>, on a message of type \<^verbatim>\<open>route_result\<close> (\<open>isError\<close> false, with
  its payload) or of type \<^verbatim>\<open>error\<close> (\<open>isError\<close> true, with \<^verbatim>\<open>payload?.message\<close>).
\<close>

definition handleRouteResult ::
    "bool \<Rightarrow> string option \<Rightarrow> json option \<Rightarrow> string option \<Rightarrow> nat \<Rightarrow> state \<Rightarrow> state" where
  "handleRouteResult isError rid payload errMessage now s =
     (case rid of
        None \<Rightarrow> s
      | Some reqId \<Rightarrow>
          (if reqId = [] then s
           else (case map_of (pendingRequests s) reqId of
                   None \<Rightarrow> s
                 | Some pending \<Rightarrow>
                     (let s1 = s\<lparr>pendingRequests := AList.delete reqId (pendingRequests s)\<rparr>
                      in if isError
                         then resume_reject (pr_cont pending)
                                (case errMessage of
                                   Some msg \<Rightarrow> (if msg \<noteq> [] then msg else ''Unknown error'')
                                 | None \<Rightarrow> ''Unknown error'') s1
                         else resume_resolve (pr_cont pending) payload now s1))))"

definition handleExtensionError :: "string option \<Rightarrow> string option \<Rightarrow> nat \<Rightarrow> state \<Rightarrow> state" where
  "handleExtensionError rid errMessage now s = handleRouteResult True rid None errMessage now s"

definition handleTabClosed :: "int option \<Rightarrow> int option \<Rightarrow> state \<Rightarrow> state" where
  "handleTabClosed payloadTabId topTabId s =
     (case (case payloadTabId of Some t \<Rightarrow> Some t | None \<Rightarrow> topTabId) of
        None \<Rightarrow> s
      | Some tabId \<Rightarrow>
          (if map_of (tabRouting s) tabId \<noteq> None
           then s\<lparr>tabRouting := AList.delete tabId (tabRouting s)\<rparr>
           else s))"

definition handleWindowClosed :: "string option \<Rightarrow> state \<Rightarrow> state" where
  "handleWindowClosed sid s =
     (case sid of
        None \<Rightarrow> s
      | Some sessionId \<Rightarrow> (if sessionId \<noteq> [] then setClientWindowId sessionId JNull s else s))"

definition handleLegacyMessage :: "string \<Rightarrow> string option \<Rightarrow> json option \<Rightarrow> nat \<Rightarrow> state \<Rightarrow> state" where
  "handleLegacyMessage reqId err result now s =
     (case map_of (pendingRequests s) reqId of
        None \<Rightarrow> s
      | Some pending \<Rightarrow>
          (let s1 = s\<lparr>pendingRequests := AList.delete reqId (pendingRequests s)\<rparr>
           in (case err of
                 Some msg \<Rightarrow>
                   (if msg \<noteq> [] then resume_reject (pr_cont pending) msg s1
                    else resume_resolve (pr_cont pending) result now s1)
               | None \<Rightarrow> resume_resolve (pr_cont pending) result now s1)))"

definition str_truthy :: "string option \<Rightarrow> bool" where
  "str_truthy x = (case x of None \<Rightarrow> False | Some v \<Rightarrow> v \<noteq> [])"

definition handleExtensionMessage :: "message \<Rightarrow> ws \<Rightarrow> nat \<Rightarrow> state \<Rightarrow> state" where
  "handleExtensionMessage m w now s =
     (case m of
        Hello profileId capabilities \<Rightarrow> handleExtensionHello profileId capabilities w now s
      | RouteResult rid payload \<Rightarrow> handleRouteResult False rid payload None now s
      | ErrorMsg rid errMessage \<Rightarrow> handleExtensionError rid errMessage now s
      | TabClosed payloadTabId topTabId \<Rightarrow> handleTabClosed payloadTabId topTabId s
      | WindowClosed sid \<Rightarrow> handleWindowClosed sid s
      | Keepalive sid \<Rightarrow> s
      | Pong \<Rightarrow> s
      | Other sid rid command ident err result \<Rightarrow>
          (case ident of
             None \<Rightarrow> s
           | Some reqId \<Rightarrow>
               (if reqId \<noteq> [] \<and> str_truthy command
                then handleLegacyMessage reqId err result now s
                else s))
      | _ \<Rightarrow> s)"

subsection \<open>\<^verbatim>\<open>daemon/server.ts\<close>\<close>

text \<open>The \<^verbatim>\<open>close\<close> handler of the WebSocket server.\<close>

definition ws_close :: "ws \<Rightarrow> state \<Rightarrow> state" where
  "ws_close w s =
     (if (case extensionConnection s of None \<Rightarrow> False | Some c \<Rightarrow> ec_ws c = w)
      then foldl (\<lambda>st (reqId, pending). resume_reject (pr_cont pending) ''Extension disconnected'' st)
             (s\<lparr>pendingRequests := [], extensionConnection := None\<rparr>)
             (pendingRequests s)
      else (case find (\<lambda>(sessionId, session). cs_ws session = w) (clientSessions s) of
              Some (sessionId, session) \<Rightarrow> unregisterClient sessionId s
            | None \<Rightarrow> s))"

text \<open>The \<^verbatim>\<open>message\<close> handler of the WebSocket server.\<close>

definition ws_message :: "ws \<Rightarrow> message \<Rightarrow> nat \<Rightarrow> env \<Rightarrow> state \<Rightarrow> state" where
  "ws_message w m now e s =
     (case m of
        Unparsable \<Rightarrow> s
      | Hello profileId capabilities \<Rightarrow>
          (if (case extensionConnection s of None \<Rightarrow> False | Some c \<Rightarrow> ec_ws c \<noteq> w)
           then s\<lparr>effects := effects s @ [CloseConn w 4000 ''Extension already connected'']\<rparr>
           else handleExtensionMessage m w now s)
      | Register sessionId label \<Rightarrow> handleClientMessage m w now e s
      | Command reqId sessionId command ps \<Rightarrow> handleClientMessage m w now e s
      | Unregister sessionId \<Rightarrow> handleClientMessage m w now e s
      | Keepalive sid \<Rightarrow> handleClientMessage m w now e s
      | RouteResult rid payload \<Rightarrow> handleExtensionMessage m w now s
      | ErrorMsg rid errMessage \<Rightarrow> handleExtensionMessage m w now s
      | TabClosed payloadTabId topTabId \<Rightarrow> handleExtensionMessage m w now s
      | Other sid rid command ident err result \<Rightarrow>
          (if str_truthy sid \<and> (str_truthy command \<or> str_truthy rid)
           then handleClientMessage m w now e s
           else handleExtensionMessage m w now s)
      | _ \<Rightarrow> handleExtensionMessage m w now s)"

text \<open>The callback of \<^verbatim>\<open>staleCheckInterval\<close>, run every \<^verbatim>\<open>CLIENT_KEEPALIVE_TIMEOUT_MS / 2\<close>.\<close>

definition staleCheck :: "nat \<Rightarrow> state \<Rightarrow> state" where
  "staleCheck now s =
     foldl (\<lambda>st (sessionId, session).
              if int now - int (cs_lastSeen session) > int CLIENT_KEEPALIVE_TIMEOUT_MS
              then unregisterClient sessionId st
              else st)
       s (clientSessions s)"


text \<open>The callback of \<^verbatim>\<open>extensionPingInterval\<close>.\<close>

definition extensionPing :: "state \<Rightarrow> state" where
  "extensionPing s =
     (case extensionConnection s of
        None \<Rightarrow> s
      | Some c \<Rightarrow> s\<lparr>effects := effects s @ [Send (ec_ws c) OPing]\<rparr>)"

text \<open>
  The timer that \<^verbatim>\<open>sendCommandToExtension\<close> set for request \<open>reqId\<close> comes up at time
  \<open>now\<close>. A \<^verbatim>\<open>setTimeout\<close> callback does not run before its delay has passed, and the
  timer of a request whose entry has left the table was cleared and does not run at all.
\<close>

definition request_timeout :: "string \<Rightarrow> nat \<Rightarrow> state \<Rightarrow> state" where
  "request_timeout reqId now s =
     (case map_of (pendingRequests s) reqId of
        None \<Rightarrow> s
      | Some pending \<Rightarrow>
          (if now < pr_timeout pending then s
           else resume_reject (pr_cont pending) ''Request timed out''
                  (s\<lparr>pendingRequests := AList.delete reqId (pendingRequests s)\<rparr>)))"

subsection \<open>The event loop\<close>

datatype event =
    WsMessage ws message nat env
  | WsClose ws
  | RequestTimer string nat
  | ConnectPollTimer nat nat
  | StaleCheckTimer nat
  | PingTimer

fun step :: "state \<Rightarrow> event \<Rightarrow> state" where
  "step s (WsMessage w m now e) = ws_message w m now e s"
| "step s (WsClose w) = ws_close w s"
| "step s (RequestTimer reqId now) = request_timeout reqId now s"
| "step s (ConnectPollTimer n now) = connect_poll n now s"
| "step s (StaleCheckTimer now) = staleCheck now s"
| "step s PingTimer = extensionPing s"

definition run :: "state \<Rightarrow> event list \<Rightarrow> state" where
  "run s es = foldl step s es"

section \<open>Vocabulary of the statements, and scenarios\<close>

subsection \<open>Vocabulary\<close>

text \<open>
  The parts of a suspended closure: the socket of the client, the reqId and the sessionId of
  its command, and the code of the error that its \<^verbatim>\<open>catch\<close> block sends.
\<close>

definition cont_clientWs :: "cont \<Rightarrow> ws" where
  "cont_clientWs k = (case k of AwaitCreateWindow w r sid c ps \<Rightarrow> w | AwaitCommand w r sid \<Rightarrow> w)"

definition cont_reqId :: "cont \<Rightarrow> string" where
  "cont_reqId k = (case k of AwaitCreateWindow w r sid c ps \<Rightarrow> r | AwaitCommand w r sid \<Rightarrow> r)"

definition cont_sessionId :: "cont \<Rightarrow> string" where
  "cont_sessionId k = (case k of AwaitCreateWindow w r sid c ps \<Rightarrow> sid | AwaitCommand w r sid \<Rightarrow> sid)"

definition cont_error_code :: "cont \<Rightarrow> string" where
  "cont_error_code k =
     (case k of
        AwaitCreateWindow w r sid c ps \<Rightarrow> ''WINDOW_CREATION_FAILED''
      | AwaitCommand w r sid \<Rightarrow> ''COMMAND_FAILED'')"

text \<open>The message a client is sent when the closure that serves it is rejected with \<open>msg\<close>.\<close>

definition rejection :: "string \<Rightarrow> cont \<Rightarrow> action" where
  "rejection msg k = Send (cont_clientWs k) (OError (cont_reqId k) (cont_sessionId k) (cont_error_code k) msg)"

text \<open>The message a client is sent when no extension is there to take its command.\<close>

definition not_connected_error :: "ws \<Rightarrow> string \<Rightarrow> string \<Rightarrow> action" where
  "not_connected_error w reqId sessionId =
     Send w (OError reqId sessionId ''EXTENSION_NOT_CONNECTED''
               ''Extension not connected and Chrome failed to start'')"

text \<open>An extension connection is bound, and it is not the connection \<open>w\<close>.\<close>

definition bound_elsewhere :: "ws \<Rightarrow> state \<Rightarrow> bool" where
  "bound_elsewhere w s = (case extensionConnection s of None \<Rightarrow> False | Some c \<Rightarrow> ec_ws c \<noteq> w)"



text \<open>The codes of the error messages sent to socket \<open>w\<close> for the client request \<open>reqId\<close>.\<close>

fun error_code_of :: "ws \<Rightarrow> string \<Rightarrow> action \<Rightarrow> string list" where
  "error_code_of w reqId (Send w' (OError r sid code msg)) = (if w' = w \<and> r = reqId then [code] else [])"
| "error_code_of w reqId a = []"

definition error_codes_for :: "ws \<Rightarrow> string \<Rightarrow> action list \<Rightarrow> string list" where
  "error_codes_for w reqId acts = concat (map (error_code_of w reqId) acts)"

subsection \<open>Invariants\<close>

text \<open>
  The request id made from counter value \<open>c\<close> at time \<open>now\<close>, and the invariant that every
  pending request id was made from a counter value that is used up.
\<close>

definition request_id :: "nat \<Rightarrow> nat \<Rightarrow> string" where
  "request_id c now = ''req_'' @ radix 10 c @ ''_'' @ radix 36 now"

definition ids_fresh :: "state \<Rightarrow> bool" where
  "ids_fresh s =
     (\<forall>rid \<in> fst ` set (pendingRequests s). \<exists>c t. rid = request_id c t \<and> c \<le> requestIdCounter s)"

text \<open>
  A route message is sent under a session id of the set \<open>S\<close>, with that id in its params;
  \<open>sessions_named\<close> is the set of session ids that the \<^verbatim>\<open>command\<close> and \<^verbatim>\<open>unregister\<close>
  messages of a run name in their \<^verbatim>\<open>sessionId\<close> field. The invariant: the routes sent, the
  suspended closures and the suspended commands are all under session ids of \<open>S\<close>.
\<close>

definition route_carries :: "string set \<Rightarrow> action \<Rightarrow> bool" where
  "route_carries S a =
     (case a of
        Send w (ORoute rid sid cmd ps) \<Rightarrow> sid \<in> S \<and> map_of ps ''sessionId'' = Some (JStr sid)
      | _ \<Rightarrow> True)"

fun event_session :: "event \<Rightarrow> string set" where
  "event_session (WsMessage w (Command r sid cmd ps) now e) = {sid}"
| "event_session (WsMessage w (Unregister sid) now e) = {sid}"
| "event_session _ = {}"

definition sessions_named :: "event list \<Rightarrow> string set" where
  "sessions_named es = (\<Union>ev \<in> set es. event_session ev)"

definition isolation_inv :: "string set \<Rightarrow> state \<Rightarrow> bool" where
  "isolation_inv S s =
     ((\<forall>a \<in> set (effects s). route_carries S a)
      \<and> (\<forall>(rid, p) \<in> set (pendingRequests s). cont_sessionId (pr_cont p) \<in> S)
      \<and> (\<forall>wt \<in> set (connectWaiters s). w_sessionId wt \<in> S))"

text \<open>
  Where a message that is sent comes from. \<open>commands_received\<close> is the set of the
  \<^verbatim>\<open>command\<close> messages of a run, each with the socket it came in on: socket, reqId,
  sessionId, command and params. \<open>sessions_unregistered\<close> is the set of session ids named by
  its \<^verbatim>\<open>unregister\<close> messages. A suspended closure or a suspended command comes from a
  command of the set when it holds that command's socket, reqId and sessionId (and its
  command and params, where it holds them). A route comes from a command of the set when it
  is sent under the sessionId of that command, and is either the request for a window of
  that session or that command itself, with the sessionId put into its params; or it is
  the \<^verbatim>\<open>close_window\<close> of an unregistered session. A response or an error comes from a
  command of the set when it goes to the socket of that command, with its reqId and
  sessionId.
\<close>

fun event_commands :: "event \<Rightarrow> (ws \<times> string \<times> string \<times> string \<times> params) set" where
  "event_commands (WsMessage w (Command r sid cmd ps) now e) = {(w, r, sid, cmd, ps)}"
| "event_commands _ = {}"

definition commands_received :: "event list \<Rightarrow> (ws \<times> string \<times> string \<times> string \<times> params) set" where
  "commands_received es = (\<Union>ev \<in> set es. event_commands ev)"

fun event_unregisters :: "event \<Rightarrow> string set" where
  "event_unregisters (WsMessage w (Unregister sid) now e) = {sid}"
| "event_unregisters _ = {}"

definition sessions_unregistered :: "event list \<Rightarrow> string set" where
  "sessions_unregistered es = (\<Union>ev \<in> set es. event_unregisters ev)"

definition client_of :: "(ws \<times> string \<times> string \<times> string \<times> params) set \<Rightarrow> ws \<Rightarrow> string \<Rightarrow> string \<Rightarrow> bool" where
  "client_of C w r sid = (\<exists>cmd ps. (w, r, sid, cmd, ps) \<in> C)"

definition cont_from :: "(ws \<times> string \<times> string \<times> string \<times> params) set \<Rightarrow> cont \<Rightarrow> bool" where
  "cont_from C k =
     (case k of
        AwaitCreateWindow w r sid cmd ps \<Rightarrow> (w, r, sid, cmd, ps) \<in> C
      | AwaitCommand w r sid \<Rightarrow> client_of C w r sid)"

definition waiter_from :: "(ws \<times> string \<times> string \<times> string \<times> params) set \<Rightarrow> waiter \<Rightarrow> bool" where
  "waiter_from C wt =
     ((w_clientWs wt, w_reqId wt, w_sessionId wt, w_command wt, w_params wt) \<in> C)"

definition route_from ::
    "(ws \<times> string \<times> string \<times> string \<times> params) set \<Rightarrow> string set \<Rightarrow> string \<Rightarrow> string \<Rightarrow> params \<Rightarrow> bool" where
  "route_from C U sid c ps' =
     ((\<exists>w r cmd ps. (w, r, sid, cmd, ps) \<in> C
          \<and> ((c = ''create_window'' \<and> ps' = [(''sessionId'', JStr sid)])
             \<or> (c = cmd \<and> ps' = AList.update ''sessionId'' (JStr sid) ps)))
      \<or> (sid \<in> U \<and> c = ''close_window'' \<and> ps' = [(''sessionId'', JStr sid)]))"

definition action_from :: "(ws \<times> string \<times> string \<times> string \<times> params) set \<Rightarrow> string set \<Rightarrow> action \<Rightarrow> bool" where
  "action_from C U a =
     (case a of
        Send w (ORoute rid sid c ps') \<Rightarrow> route_from C U sid c ps'
      | Send w (OError r sid code msg) \<Rightarrow> client_of C w r sid
      | Send w (OResponse r sid payload) \<Rightarrow> client_of C w r sid
      | _ \<Rightarrow> True)"

definition origin_inv :: "(ws \<times> string \<times> string \<times> string \<times> params) set \<Rightarrow> string set \<Rightarrow> state \<Rightarrow> bool" where
  "origin_inv C U s =
     ((\<forall>a \<in> set (effects s). action_from C U a)
      \<and> (\<forall>(rid, p) \<in> set (pendingRequests s). cont_from C (pr_cont p))
      \<and> (\<forall>wt \<in> set (connectWaiters s). waiter_from C wt))"

subsection \<open>Scenarios\<close>

text \<open>
  Two machines: one with no browser executable, one where Chromium is installed and starts.
\<close>

definition no_chrome :: env where
  "no_chrome = \<lparr>fs_exists = (\<lambda>p. False), spawn = (\<lambda>p. None)\<rparr>"

definition with_chrome :: env where
  "with_chrome = \<lparr>fs_exists = (\<lambda>p. p = ''/usr/bin/chromium''), spawn = (\<lambda>p. Some 4242)\<rparr>"

text \<open>
  The happy path: the extension attaches on connection 9 at time 1, a client registers
  session \<^verbatim>\<open>s1\<close> on connection 1, and sends a command; the daemon asks for a window
  (\<^verbatim>\<open>req_1_3\<close>), the extension answers with window 42, the daemon forwards the command
  (\<^verbatim>\<open>req_2_4\<close>), and the extension answers it.
\<close>

definition ev_hello :: event where
  "ev_hello = WsMessage 9 (Hello None None) 1 no_chrome"

definition ev_register :: event where
  "ev_register = WsMessage 1 (Register ''s1'' ''L'') 2 no_chrome"

definition ev_command :: event where
  "ev_command =
     WsMessage 1 (Command ''r1'' ''s1'' ''navigate'' [(''url'', JStr ''https://example.com'')]) 3 no_chrome"

definition ev_window :: event where
  "ev_window =
     WsMessage 9 (RouteResult (Some ''req_1_3'') (Some (JObj [(''windowId'', JNum 42)]))) 4 no_chrome"

definition ev_result :: event where
  "ev_result =
     WsMessage 9 (RouteResult (Some ''req_2_4'') (Some (JObj [(''success'', JBool True)]))) 5 no_chrome"

definition st_bound :: state where
  "st_bound = step init ev_hello"

definition st_registered :: state where
  "st_registered = step st_bound ev_register"

definition st_creating :: state where
  "st_creating = step st_registered ev_command"

definition st_forwarded :: state where
  "st_forwarded = step st_creating ev_window"

definition st_done :: state where
  "st_done = step st_forwarded ev_result"

text \<open>
  Further events: the extension connection closes; a new extension attaches on connection
  10, the client sends a second command, and the new extension answers the request for a
  window; the extension reports the window of \<^verbatim>\<open>s1\<close> closed; a second client registers
  session \<^verbatim>\<open>s2\<close> on connection 2, and a command that names \<^verbatim>\<open>s2\<close> arrives on
  connection 1; a third command of \<^verbatim>\<open>s1\<close>; a command arrives while no extension is bound,
  on the machine with Chromium, and the extension attaches while it waits.
\<close>

definition ev_close :: event where
  "ev_close = WsClose 9"

definition ev_hello2 :: event where
  "ev_hello2 = WsMessage 10 (Hello None None) 7 no_chrome"

definition ev_window_closed :: event where
  "ev_window_closed = WsMessage 9 (WindowClosed (Some ''s1'')) 6 no_chrome"

definition ev_register2 :: event where
  "ev_register2 = WsMessage 2 (Register ''s2'' ''M'') 3 no_chrome"

definition ev_command_chrome :: event where
  "ev_command_chrome = WsMessage 1 (Command ''r1'' ''s1'' ''navigate'' []) 3 with_chrome"

definition ev_command2 :: event where
  "ev_command2 = WsMessage 1 (Command ''r2'' ''s1'' ''get_tabs'' []) 8 no_chrome"

definition ev_window2 :: event where
  "ev_window2 =
     WsMessage 10 (RouteResult (Some ''req_3_8'') (Some (JObj [(''windowId'', JNum 43)]))) 9 no_chrome"

definition ev_cross :: event where
  "ev_cross = WsMessage 1 (Command ''r1'' ''s2'' ''get_tabs'' []) 4 no_chrome"


definition ev_hello_late :: event where
  "ev_hello_late = WsMessage 9 (Hello None None) 400 no_chrome"

definition st_absent :: state where
  "st_absent = step st_done ev_close"

definition st_rebound :: state where
  "st_rebound = step st_absent ev_hello2"

definition st_recreating :: state where
  "st_recreating = step st_rebound ev_command2"

definition st_closed :: state where
  "st_closed = step st_done ev_window_closed"

definition st_two :: state where
  "st_two = step st_registered ev_register2"

definition st_waiting :: state where
  "st_waiting = step init ev_command_chrome"

definition st_waiting_bound :: state where
  "st_waiting_bound = step st_waiting ev_hello_late"

section \<open>Auxiliary lemmas\<close>

subsection \<open>What the handlers do, field by field\<close>

lemma resume_reject_eq:
  "resume_reject k msg s = s\<lparr>effects := effects s @ [rejection msg k]\<rparr>"
  by (cases k)
     (simp_all add: resume_reject_def sendErrorToClient_def rejection_def cont_clientWs_def
        cont_reqId_def cont_sessionId_def cont_error_code_def)

lemma map_of_delete_same: "map_of (AList.delete k al) k = None"
  by (simp add: AList.delete_conv')

lemma route_result_unknown:
  "map_of (pendingRequests s) rid = None \<Longrightarrow> handleRouteResult b (Some rid) payload em now s = s"
  by (simp add: handleRouteResult_def)

lemma foldl_reject:
  "foldl (\<lambda>st (reqId, pending). resume_reject (pr_cont pending) msg st) s ps
     = s\<lparr>effects := effects s @ map (\<lambda>(reqId, pending). rejection msg (pr_cont pending)) ps\<rparr>"
proof (induction ps arbitrary: s)
  case Nil
  then show ?case by simp
next
  case (Cons a ps)
  then show ?case by (cases a) (simp add: resume_reject_eq)
qed

lemma startChrome_fails: "\<not> fst (startChrome e s) \<Longrightarrow> snd (startChrome e s) = s"
  by (auto simp: startChrome_def split: option.splits)

lemma startChrome_extension [simp]:
  "extensionConnection (snd (startChrome e s)) = extensionConnection s"
  by (auto simp: startChrome_def split: option.splits)

lemma startChrome_waiters [simp]:
  "connectWaiters (snd (startChrome e s)) = connectWaiters s"
  "pendingRequests (snd (startChrome e s)) = pendingRequests s"
  "effects (snd (startChrome e s)) = effects s"
  by (auto simp: startChrome_def split: option.splits)

lemma command_creates_window:
  assumes "extensionConnection s = Some c" and "sid \<notin> windowCache s"
  shows "step s (WsMessage cw (Command r sid cmd ps) now e) =
           s\<lparr>requestIdCounter := requestIdCounter s + 1,
             pendingRequests :=
               AList.update (fst (generateRequestId now s))
                 \<lparr>pr_cont = AwaitCreateWindow cw r sid cmd ps, pr_timeout = now + 30000,
                  pr_sessionId = sid\<rparr> (pendingRequests s),
             effects := effects s @
               [Send (ec_ws c)
                  (ORoute (fst (generateRequestId now s)) sid ''create_window''
                     [(''sessionId'', JStr sid)])]\<rparr>"
  using assms
  by (simp add: ws_message_def handleClientMessage_def handleCommand_def handleCommand_connected_def
        sendCommandToExtension_def generateRequestId_def sendToExtension_def Let_def
        REQUEST_TIMEOUT_MS_def)

lemma hello_accepted:
  assumes "\<not> bound_elsewhere w s"
  shows "step s (WsMessage w (Hello pid caps) now e) = handleExtensionHello pid caps w now s"
  using assms
  by (auto simp: bound_elsewhere_def ws_message_def handleExtensionMessage_def split: option.splits)

lemma hello_fields:
  "clientSessions (handleExtensionHello pid caps w now s)
     = map (\<lambda>(k, c). (k, c\<lparr>cs_windowId := JNull\<rparr>)) (clientSessions s)"
  "windowCache (handleExtensionHello pid caps w now s) = {}"
  "tabRouting (handleExtensionHello pid caps w now s) = []"
  "pendingRequests (handleExtensionHello pid caps w now s) = pendingRequests s"
  "\<exists>c. extensionConnection (handleExtensionHello pid caps w now s) = Some c \<and> ec_ws c = w"
  by (simp_all add: handleExtensionHello_def clearAllWindowIds_def sendToExtension_def
        broadcastSessionsToExtension_def Let_def)




subsection \<open>Request ids are told apart by their counter\<close>

lemma digit_chars_distinct: "distinct ''0123456789abcdefghijklmnopqrstuvwxyz''"
  by simp

lemma digit_char_inj:
  assumes "a < 36" and "b < 36" and "digit_char a = digit_char b"
  shows "a = b"
proof -
  have "length ''0123456789abcdefghijklmnopqrstuvwxyz'' = 36" by simp
  with assms show ?thesis
    unfolding digit_char_def
    by (metis digit_chars_distinct nth_eq_iff_index_eq)
qed

lemma digit_char_mem:
  assumes "a < 36"
  shows "digit_char a \<in> set ''0123456789abcdefghijklmnopqrstuvwxyz''"
proof -
  have "length ''0123456789abcdefghijklmnopqrstuvwxyz'' = 36" by simp
  with assms show ?thesis
    unfolding digit_char_def by (metis nth_mem)
qed

lemma digit_char_not_underscore:
  "a < 36 \<Longrightarrow> digit_char a \<noteq> CHR ''_''" "a < 36 \<Longrightarrow> CHR ''_'' \<noteq> digit_char a"
  using digit_char_mem [of a] by auto

lemma mod_digit: "2 \<le> b \<Longrightarrow> b \<le> 36 \<Longrightarrow> x mod b < (36::nat)"
proof -
  assume "2 \<le> b" and "b \<le> 36"
  then have "x mod b < b" by simp
  with \<open>b \<le> 36\<close> show ?thesis by linarith
qed

lemma radix_no_underscore:
  "2 \<le> b \<Longrightarrow> b \<le> 36 \<Longrightarrow> CHR ''_'' \<notin> set (radix b n)"
proof (induction b n rule: radix.induct)
  case (1 b n)
  show ?case
  proof (cases "n < b")
    case True
    then have "n < 36" using "1.prems" by simp
    with True show ?thesis
      by (simp add: radix.simps [of b n] digit_char_not_underscore)
  next
    case False
    have "n mod b < 36"
      using "1.prems" by (rule mod_digit)
    with False "1.prems" "1.IH" show ?thesis
      by (simp add: radix.simps [of b n] digit_char_not_underscore)
  qed
qed

lemma radix_nonempty: "radix b n \<noteq> []" "[] \<noteq> radix b n"
  by (simp_all add: radix.simps [of b n])

lemma radix_inj:
  "2 \<le> b \<Longrightarrow> b \<le> 36 \<Longrightarrow> radix b n = radix b m \<Longrightarrow> n = m"
proof (induction b n arbitrary: m rule: radix.induct)
  case (1 b n)
  have lt: "x mod b < 36" for x
    using "1.prems"(1,2) by (rule mod_digit)
  show ?case
  proof (cases "n < b")
    case nb: True
    show ?thesis
    proof (cases "m < b")
      case True
      with nb "1.prems" show ?thesis
        by (simp add: radix.simps [of b n] radix.simps [of b m])
           (meson digit_char_inj less_le_trans)
    next
      case False
      with nb "1.prems" show ?thesis
        by (simp add: radix.simps [of b n] radix.simps [of b m] radix_nonempty)
    qed
  next
    case nb: False
    show ?thesis
    proof (cases "m < b")
      case True
      with nb "1.prems" show ?thesis
        by (simp add: radix.simps [of b n] radix.simps [of b m] radix_nonempty)
    next
      case False
      with nb "1.prems" have eq: "radix b (n div b) = radix b (m div b)"
        and d: "digit_char (n mod b) = digit_char (m mod b)"
        by (simp_all add: radix.simps [of b n] radix.simps [of b m])
      have "n div b = m div b"
        using "1.IH" nb "1.prems"(1,2) eq by simp
      moreover have "n mod b = m mod b"
        using digit_char_inj [OF lt lt d] .
      ultimately show ?thesis
        by (metis div_mult_mod_eq)
    qed
  qed
qed

lemma split_at_separator:
  assumes "c \<notin> set a" and "c \<notin> set b" and "a @ c # x = b @ c # y"
  shows "a = b"
proof -
  have "takeWhile (\<lambda>z. z \<noteq> c) (a @ c # x) = a"
    using assms(1) by (induction a) auto
  moreover have "takeWhile (\<lambda>z. z \<noteq> c) (b @ c # y) = b"
    using assms(2) by (induction b) auto
  ultimately show ?thesis
    using assms(3) by simp
qed

lemma request_id_inj:
  assumes "request_id c t = request_id c' t'"
  shows "c = c'"
proof -
  have "radix 10 c @ CHR ''_'' # radix 36 t = radix 10 c' @ CHR ''_'' # radix 36 t'"
    using assms by (simp add: request_id_def)
  then have "radix 10 c = radix 10 c'"
    by (rule split_at_separator [rotated 2]) (simp_all add: radix_no_underscore)
  then show ?thesis
    by (rule radix_inj [rotated 2]) simp_all
qed

subsection \<open>Routes are sent under the session id of a message\<close>

lemma registry_frame:
  "effects (registerClient sid l w now s) = effects s"
  "pendingRequests (registerClient sid l w now s) = pendingRequests s"
  "connectWaiters (registerClient sid l w now s) = connectWaiters s"
  "requestIdCounter (registerClient sid l w now s) = requestIdCounter s"
  "extensionConnection (registerClient sid l w now s) = extensionConnection s"
  "effects (unregisterClient sid s) = effects s"
  "pendingRequests (unregisterClient sid s) = pendingRequests s"
  "connectWaiters (unregisterClient sid s) = connectWaiters s"
  "requestIdCounter (unregisterClient sid s) = requestIdCounter s"
  "extensionConnection (unregisterClient sid s) = extensionConnection s"
  "effects (updateClientLastSeen sid now s) = effects s"
  "pendingRequests (updateClientLastSeen sid now s) = pendingRequests s"
  "connectWaiters (updateClientLastSeen sid now s) = connectWaiters s"
  "requestIdCounter (updateClientLastSeen sid now s) = requestIdCounter s"
  "extensionConnection (updateClientLastSeen sid now s) = extensionConnection s"
  "effects (setClientWindowId sid wid s) = effects s"
  "pendingRequests (setClientWindowId sid wid s) = pendingRequests s"
  "connectWaiters (setClientWindowId sid wid s) = connectWaiters s"
  "requestIdCounter (setClientWindowId sid wid s) = requestIdCounter s"
  "extensionConnection (setClientWindowId sid wid s) = extensionConnection s"
  "effects (clearAllWindowIds s) = effects s"
  "pendingRequests (clearAllWindowIds s) = pendingRequests s"
  "connectWaiters (clearAllWindowIds s) = connectWaiters s"
  "requestIdCounter (clearAllWindowIds s) = requestIdCounter s"
  "extensionConnection (clearAllWindowIds s) = extensionConnection s"
  by (simp_all add: registerClient_def unregisterClient_def updateClientLastSeen_def
        setClientWindowId_def clearAllWindowIds_def split: option.splits)

lemma window_reply_forwards:
  assumes "extensionConnection s = Some c"
    and "map_of (pendingRequests s) rid = Some p"
    and "pr_cont p = AwaitCreateWindow cw r sid cmd ps"
    and "rid \<noteq> []"
    and "truthy (get_windowId payload)"
  shows "effects (step s (WsMessage w' (RouteResult (Some rid) payload) t' e'))
           = effects s @
               [Send (ec_ws c)
                  (ORoute (fst (generateRequestId t' s)) sid cmd
                     (AList.update ''sessionId'' (JStr sid) ps))]"
proof -
  let ?s1 = "s\<lparr>pendingRequests := AList.delete rid (pendingRequests s)\<rparr>"
  let ?s2 = "setClientWindowId sid (get_windowId payload) ?s1"
  have "step s (WsMessage w' (RouteResult (Some rid) payload) t' e')
          = resume_resolve (pr_cont p) payload t' ?s1"
    using assms(2,4)
    by (simp add: ws_message_def handleExtensionMessage_def handleRouteResult_def Let_def)
  also have "\<dots> = sendCommandToExtension cmd ps sid (AwaitCommand cw r sid) t' ?s2"
    using assms(3,5) by (simp add: resume_resolve_def)
  finally have eq: "step s (WsMessage w' (RouteResult (Some rid) payload) t' e')
          = sendCommandToExtension cmd ps sid (AwaitCommand cw r sid) t' ?s2" .
  have ext: "extensionConnection ?s2 = Some c"
    using assms(1) by (simp add: registry_frame)
  have cnt: "requestIdCounter ?s2 = requestIdCounter s" and eff: "effects ?s2 = effects s"
    by (simp_all add: registry_frame)
  have "effects (sendCommandToExtension cmd ps sid (AwaitCommand cw r sid) t' ?s2)
          = effects s @
               [Send (ec_ws c)
                  (ORoute (fst (generateRequestId t' s)) sid cmd
                     (AList.update ''sessionId'' (JStr sid) ps))]"
    using ext cnt eff
    by (simp add: sendCommandToExtension_def generateRequestId_def sendToExtension_def Let_def)
  then show ?thesis
    by (simp only: eq)
qed

lemma isolation_registry:
  "isolation_inv S (registerClient sid l w now s) = isolation_inv S s"
  "isolation_inv S (unregisterClient sid s) = isolation_inv S s"
  "isolation_inv S (updateClientLastSeen sid now s) = isolation_inv S s"
  "isolation_inv S (setClientWindowId sid wid s) = isolation_inv S s"
  "isolation_inv S (clearAllWindowIds s) = isolation_inv S s"
  by (simp_all add: isolation_inv_def registry_frame)

lemma isolation_effect:
  assumes "isolation_inv S s" and "route_carries S a"
  shows "isolation_inv S (s\<lparr>effects := effects s @ [a]\<rparr>)"
  using assms by (simp add: isolation_inv_def)

lemma isolation_to_client:
  assumes "isolation_inv S s"
  shows "isolation_inv S (sendErrorToClient w r sid code msg s)"
    and "isolation_inv S (sendResponseToClient w r sid payload s)"
  using assms
  by (simp_all add: sendErrorToClient_def sendResponseToClient_def isolation_effect route_carries_def)

lemma isolation_reject:
  "isolation_inv S s \<Longrightarrow> isolation_inv S (resume_reject k msg s)"
  by (simp add: resume_reject_eq rejection_def isolation_effect route_carries_def)

lemma isolation_to_extension:
  assumes "isolation_inv S s" and "\<And>w. route_carries S (Send w m)"
  shows "isolation_inv S (sendToExtension m s)"
  using assms by (simp add: sendToExtension_def isolation_effect split: option.splits)

lemma isolation_broadcast:
  "isolation_inv S s \<Longrightarrow> isolation_inv S (broadcastSessionsToExtension s)"
  by (simp add: broadcastSessionsToExtension_def isolation_to_extension route_carries_def)

lemma set_update_subset: "set (AList.update k v al) \<subseteq> insert (k, v) (set al)"
  by (induction al) auto

lemma set_delete_subset: "set (AList.delete k al) \<subseteq> set al"
  by (auto simp: AList.delete_eq)

lemma isolation_send_command:
  assumes "isolation_inv S s" and "sid \<in> S" and "cont_sessionId k \<in> S"
  shows "isolation_inv S (sendCommandToExtension cmd ps sid k now s)"
proof (cases "extensionConnection s")
  case None
  then show ?thesis
    using assms(1) by (simp add: sendCommandToExtension_def isolation_reject)
next
  case (Some c)
  let ?rid = "fst (generateRequestId now s)"
  let ?s2 = "s\<lparr>requestIdCounter := requestIdCounter s + 1,
               pendingRequests := AList.update ?rid
                 \<lparr>pr_cont = k, pr_timeout = now + REQUEST_TIMEOUT_MS, pr_sessionId = sid\<rparr>
                 (pendingRequests s)\<rparr>"
  have "isolation_inv S ?s2"
    using assms set_update_subset [of ?rid "\<lparr>pr_cont = k, pr_timeout = now + REQUEST_TIMEOUT_MS, pr_sessionId = sid\<rparr>"
        "pendingRequests s"]
    by (auto simp: isolation_inv_def)
  moreover have "route_carries S (Send w (ORoute ?rid sid cmd (AList.update ''sessionId'' (JStr sid) ps)))" for w
    using assms(2) by (simp add: route_carries_def AList.update_conv')
  ultimately have "isolation_inv S
      (sendToExtension (ORoute ?rid sid cmd (AList.update ''sessionId'' (JStr sid) ps)) ?s2)"
    by (rule isolation_to_extension)
  then show ?thesis
    using Some by (simp add: sendCommandToExtension_def generateRequestId_def Let_def)
qed

lemma isolation_resolve:
  assumes "isolation_inv S s" and "cont_sessionId k \<in> S"
  shows "isolation_inv S (resume_resolve k payload now s)"
proof (cases k)
  case (AwaitCreateWindow w r sid cmd ps)
  have "isolation_inv S (setClientWindowId sid (get_windowId payload) s)"
    using assms(1) by (simp add: isolation_registry)
  then show ?thesis
    using assms AwaitCreateWindow
    by (simp add: resume_resolve_def isolation_to_client isolation_send_command cont_sessionId_def)
next
  case (AwaitCommand w r sid)
  then show ?thesis
    using assms by (simp add: resume_resolve_def isolation_to_client)
qed

lemma isolation_lookup:
  assumes "isolation_inv S s" and "map_of (pendingRequests s) rid = Some p"
  shows "cont_sessionId (pr_cont p) \<in> S"
  using assms map_of_SomeD [OF assms(2)] by (auto simp: isolation_inv_def)

lemma isolation_delete:
  assumes "isolation_inv S s"
  shows "isolation_inv S (s\<lparr>pendingRequests := AList.delete rid (pendingRequests s)\<rparr>)"
  using assms set_delete_subset [of rid "pendingRequests s"] by (auto simp: isolation_inv_def)

lemma isolation_route_result:
  assumes "isolation_inv S s"
  shows "isolation_inv S (handleRouteResult b rid payload em now s)"
  using assms
  by (auto simp: handleRouteResult_def Let_def isolation_reject isolation_resolve isolation_delete
        isolation_lookup split: option.splits)

lemma isolation_legacy:
  assumes "isolation_inv S s"
  shows "isolation_inv S (handleLegacyMessage rid err result now s)"
  using assms
  by (auto simp: handleLegacyMessage_def Let_def isolation_reject isolation_resolve isolation_delete
        isolation_lookup split: option.splits)

lemma isolation_hello:
  assumes "isolation_inv S s"
  shows "isolation_inv S (handleExtensionHello pid caps w now s)"
proof -
  have "isolation_inv S (clearAllWindowIds s)"
    using assms by (simp add: isolation_registry)
  then have "isolation_inv S ((clearAllWindowIds s)\<lparr>extensionConnection := x\<rparr>)" for x
    by (simp add: isolation_inv_def)
  then show ?thesis
    by (simp add: handleExtensionHello_def Let_def isolation_broadcast isolation_to_extension
          route_carries_def)
qed

lemma isolation_extension_message:
  assumes "isolation_inv S s"
  shows "isolation_inv S (handleExtensionMessage m w now s)"
proof -
  have "isolation_inv S (handleTabClosed a b s)" for a b
    using assms by (auto simp: handleTabClosed_def isolation_inv_def split: option.splits)
  moreover have "isolation_inv S (handleWindowClosed x s)" for x
    using assms by (auto simp: handleWindowClosed_def isolation_registry split: option.splits)
  ultimately show ?thesis
    using assms
    by (cases m)
       (auto simp: handleExtensionMessage_def handleExtensionError_def isolation_hello
          isolation_route_result isolation_legacy split: option.splits)
qed

lemma isolation_register:
  assumes "isolation_inv S s"
  shows "isolation_inv S (handleRegister sid l w now s)"
proof -
  have "isolation_inv S (registerClient sid l w now s)"
    using assms by (simp add: isolation_registry)
  then have "isolation_inv S ((registerClient sid l w now s)
      \<lparr>effects := effects (registerClient sid l w now s) @ [Send w (ORegistered sid True)]\<rparr>)"
    by (rule isolation_effect) (simp add: route_carries_def)
  then show ?thesis
    by (simp add: handleRegister_def Let_def isolation_broadcast)
qed

lemma isolation_unregister:
  assumes "isolation_inv S s" and "sid \<in> S"
  shows "isolation_inv S (handleUnregister sid now s)"
proof -
  have bump: "isolation_inv S (snd (generateRequestId now s))"
    using assms(1) by (simp add: generateRequestId_def Let_def isolation_inv_def)
  have "isolation_inv S
          (sendToExtension
             (ORoute (fst (generateRequestId now s)) sid ''close_window'' [(''sessionId'', JStr sid)])
             (snd (generateRequestId now s)))"
    using bump by (rule isolation_to_extension) (simp add: route_carries_def assms(2))
  then have "isolation_inv S
     (case map_of (clientSessions s) sid of
        None \<Rightarrow> s
      | Some session \<Rightarrow>
          (if truthy (cs_windowId session) \<and> extensionConnection s \<noteq> None
           then (let (reqId, s') = generateRequestId now s
                 in sendToExtension
                      (ORoute reqId sid ''close_window'' [(''sessionId'', JStr sid)]) s')
           else s))"
    using assms(1) by (simp add: split_beta split: option.splits)
  then show ?thesis
    by (simp add: handleUnregister_def Let_def isolation_broadcast isolation_registry)
qed

lemma isolation_command_connected:
  assumes "isolation_inv S s" and "sid \<in> S"
  shows "isolation_inv S (handleCommand_connected w r sid cmd ps now s)"
  using assms by (simp add: handleCommand_connected_def isolation_send_command cont_sessionId_def)

lemma isolation_connect_wait:
  assumes "isolation_inv S s" and "w_sessionId wt \<in> S"
  shows "isolation_inv S (resume_connect_wait wt now s)"
proof (cases "connect_loop_head (w_startTime wt) EXTENSION_CONNECT_TIMEOUT_MS now s")
  case Connected
  then show ?thesis
    using assms by (simp add: resume_connect_wait_def isolation_command_connected)
next
  case Sleeping
  then show ?thesis
    using assms by (simp add: resume_connect_wait_def isolation_inv_def)
next
  case TimedOut
  then show ?thesis
    using assms by (simp add: resume_connect_wait_def isolation_to_client)
qed

lemma isolation_command:
  assumes "isolation_inv S s" and "sid \<in> S"
  shows "isolation_inv S (handleCommand r sid cmd ps w now e s)"
proof (cases "extensionConnection s")
  case (Some c)
  then show ?thesis
    using assms by (simp add: handleCommand_def isolation_command_connected)
next
  case None
  have "isolation_inv S (snd (startChrome e s))"
    using assms(1) by (auto simp: startChrome_def isolation_inv_def split: option.splits)
  then show ?thesis
    using None assms(2)
    by (simp add: handleCommand_def split_beta isolation_to_client isolation_connect_wait)
qed

lemma isolation_client_message:
  assumes "isolation_inv S s" and "event_session (WsMessage w m now e) \<subseteq> S"
  shows "isolation_inv S (handleClientMessage m w now e s)"
  using assms
  by (cases m)
     (auto simp: handleClientMessage_def isolation_register isolation_unregister isolation_command
        isolation_registry split: option.splits)

lemma isolation_ws_message:
  assumes "isolation_inv S s" and "event_session (WsMessage w m now e) \<subseteq> S"
  shows "isolation_inv S (ws_message w m now e s)"
proof -
  have "isolation_inv S (s\<lparr>effects := effects s @ [CloseConn w 4000 ''Extension already connected'']\<rparr>)"
    using assms(1) by (rule isolation_effect) (simp add: route_carries_def)
  then show ?thesis
    using assms isolation_client_message [OF assms] isolation_extension_message [OF assms(1)]
    by (cases m) (simp_all add: ws_message_def)
qed

lemma isolation_close:
  assumes "isolation_inv S s"
  shows "isolation_inv S (ws_close w s)"
proof -
  have "isolation_inv S
          (s\<lparr>pendingRequests := [], extensionConnection := None,
             effects := effects s @
               map (\<lambda>(reqId, pending). rejection ''Extension disconnected'' (pr_cont pending))
                 (pendingRequests s)\<rparr>)"
    using assms by (auto simp: isolation_inv_def rejection_def route_carries_def)
  then show ?thesis
    using assms
    by (auto simp: ws_close_def foldl_reject isolation_registry split: option.splits)
qed

lemma isolation_sweep:
  assumes "isolation_inv S s"
  shows "isolation_inv S (staleCheck now s)"
proof -
  have "isolation_inv S
          (foldl (\<lambda>st (sessionId, session).
                    if int now - int (cs_lastSeen session) > int CLIENT_KEEPALIVE_TIMEOUT_MS
                    then unregisterClient sessionId st
                    else st) st xs)" if "isolation_inv S st" for st xs
    using that
  proof (induction xs arbitrary: st)
    case Nil
    then show ?case by simp
  next
    case (Cons a xs)
    then show ?case
      by (cases a) (simp add: isolation_registry)
  qed
  then show ?thesis
    using assms by (simp add: staleCheck_def)
qed

lemma isolation_poll:
  assumes "isolation_inv S s"
  shows "isolation_inv S (connect_poll n now s)"
proof (cases "n < length (connectWaiters s)")
  case False
  then show ?thesis using assms by (simp add: connect_poll_def)
next
  case True
  let ?wt = "connectWaiters s ! n"
  let ?s1 = "s\<lparr>connectWaiters := take n (connectWaiters s) @ drop (Suc n) (connectWaiters s)\<rparr>"
  have "?wt \<in> set (connectWaiters s)"
    using True by simp
  then have sid: "w_sessionId ?wt \<in> S"
    using assms by (simp add: isolation_inv_def)
  have "set (take n (connectWaiters s) @ drop (Suc n) (connectWaiters s)) \<subseteq> set (connectWaiters s)"
    using set_take_subset set_drop_subset by fastforce
  then have "isolation_inv S ?s1"
    using assms by (auto simp: isolation_inv_def)
  then have "isolation_inv S (resume_connect_wait ?wt now ?s1)"
    using sid by (rule isolation_connect_wait)
  then show ?thesis
    using True assms by (simp add: connect_poll_def Let_def split: poll.splits)
qed

lemma isolation_step:
  assumes "isolation_inv S s" and "event_session ev \<subseteq> S"
  shows "isolation_inv S (step s ev)"
proof (cases ev)
  case (WsMessage w m now e)
  then show ?thesis using assms by (simp add: isolation_ws_message)
next
  case (WsClose w)
  then show ?thesis using assms by (simp add: isolation_close)
next
  case (RequestTimer rid now)
  then show ?thesis
    using assms(1)
    by (auto simp: request_timeout_def isolation_reject isolation_delete split: option.splits)
next
  case (ConnectPollTimer n now)
  then show ?thesis using assms by (simp add: isolation_poll)
next
  case (StaleCheckTimer now)
  then show ?thesis using assms by (simp add: isolation_sweep)
next
  case PingTimer
  then show ?thesis
    using assms(1)
    by (auto simp: extensionPing_def isolation_effect route_carries_def split: option.splits)
qed

lemma isolation_run:
  assumes "isolation_inv S s" and "sessions_named es \<subseteq> S"
  shows "isolation_inv S (run s es)"
  using assms
proof (induction es arbitrary: s)
  case Nil
  then show ?case by (simp add: run_def)
next
  case (Cons ev es)
  have "event_session ev \<subseteq> S" and "sessions_named es \<subseteq> S"
    using Cons.prems(2) by (auto simp: sessions_named_def)
  then have "isolation_inv S (run (step s ev) es)"
    using Cons.IH Cons.prems(1) isolation_step by blast
  then show ?case by (simp add: run_def)
qed

subsection \<open>Request ids are never reused\<close>

lemma fresh_registry:
  "ids_fresh (registerClient sid l w now s) = ids_fresh s"
  "ids_fresh (unregisterClient sid s) = ids_fresh s"
  "ids_fresh (updateClientLastSeen sid now s) = ids_fresh s"
  "ids_fresh (setClientWindowId sid wid s) = ids_fresh s"
  "ids_fresh (clearAllWindowIds s) = ids_fresh s"
  by (simp_all add: ids_fresh_def registry_frame)

lemma fresh_fields:
  "ids_fresh (s\<lparr>effects := x\<rparr>) = ids_fresh s"
  "ids_fresh (s\<lparr>extensionConnection := y\<rparr>) = ids_fresh s"
  "ids_fresh (s\<lparr>connectWaiters := z\<rparr>) = ids_fresh s"
  "ids_fresh (s\<lparr>chromeProcess := u\<rparr>) = ids_fresh s"
  "ids_fresh (s\<lparr>tabRouting := v\<rparr>) = ids_fresh s"
  by (simp_all add: ids_fresh_def)

lemma fresh_sends:
  "ids_fresh (sendErrorToClient w r sid code msg s) = ids_fresh s"
  "ids_fresh (sendResponseToClient w r sid payload s) = ids_fresh s"
  "ids_fresh (resume_reject k msg s) = ids_fresh s"
  "ids_fresh (sendToExtension m s) = ids_fresh s"
  "ids_fresh (broadcastSessionsToExtension s) = ids_fresh s"
  by (simp_all add: sendErrorToClient_def sendResponseToClient_def resume_reject_eq
        sendToExtension_def broadcastSessionsToExtension_def fresh_fields split: option.splits)

lemma fresh_delete:
  assumes "ids_fresh s"
  shows "ids_fresh (s\<lparr>pendingRequests := AList.delete rid (pendingRequests s)\<rparr>)"
  using assms set_delete_subset [of rid "pendingRequests s"] by (fastforce simp: ids_fresh_def)

lemma fresh_bump:
  assumes "ids_fresh s"
  shows "ids_fresh (snd (generateRequestId now s))"
  using assms by (fastforce simp: ids_fresh_def generateRequestId_def Let_def)

lemma fresh_send_command:
  assumes "ids_fresh s"
  shows "ids_fresh (sendCommandToExtension cmd ps sid k now s)"
proof (cases "extensionConnection s")
  case None
  then show ?thesis
    using assms by (simp add: sendCommandToExtension_def fresh_sends)
next
  case (Some c)
  let ?rid = "request_id (requestIdCounter s + 1) now"
  let ?s2 = "s\<lparr>requestIdCounter := requestIdCounter s + 1,
               pendingRequests := AList.update ?rid
                 \<lparr>pr_cont = k, pr_timeout = now + REQUEST_TIMEOUT_MS, pr_sessionId = sid\<rparr>
                 (pendingRequests s)\<rparr>"
  have "ids_fresh ?s2"
    unfolding ids_fresh_def
  proof
    fix rid assume "rid \<in> fst ` set (pendingRequests ?s2)"
    then have "rid = ?rid \<or> rid \<in> fst ` set (pendingRequests s)"
      by (simp add: AList.dom_update)
    then show "\<exists>c t. rid = request_id c t \<and> c \<le> requestIdCounter ?s2"
    proof
      assume "rid = ?rid"
      then show ?thesis by auto
    next
      assume "rid \<in> fst ` set (pendingRequests s)"
      then obtain c t where "rid = request_id c t" "c \<le> requestIdCounter s"
        using assms unfolding ids_fresh_def by blast
      then show ?thesis by auto
    qed
  qed
  then show ?thesis
    using Some
    by (simp add: sendCommandToExtension_def generateRequestId_def request_id_def Let_def fresh_sends)
qed

lemma fresh_resolve:
  assumes "ids_fresh s"
  shows "ids_fresh (resume_resolve k payload now s)"
  using assms
  by (cases k) (simp_all add: resume_resolve_def fresh_sends fresh_send_command fresh_registry)

lemma fresh_route_result:
  assumes "ids_fresh s"
  shows "ids_fresh (handleRouteResult b rid payload em now s)"
  using assms
  by (auto simp: handleRouteResult_def Let_def fresh_sends fresh_resolve fresh_delete
        split: option.splits)

lemma fresh_legacy:
  assumes "ids_fresh s"
  shows "ids_fresh (handleLegacyMessage rid err result now s)"
  using assms
  by (auto simp: handleLegacyMessage_def Let_def fresh_sends fresh_resolve fresh_delete
        split: option.splits)

lemma fresh_extension_message:
  assumes "ids_fresh s"
  shows "ids_fresh (handleExtensionMessage m w now s)"
proof -
  have "ids_fresh (handleTabClosed a b s)" for a b
    using assms by (auto simp: handleTabClosed_def fresh_fields split: option.splits)
  moreover have "ids_fresh (handleWindowClosed x s)" for x
    using assms by (auto simp: handleWindowClosed_def fresh_registry split: option.splits)
  moreover have "ids_fresh (handleExtensionHello pid caps w now s)" for pid caps
    using assms
    by (simp add: handleExtensionHello_def Let_def fresh_sends fresh_fields fresh_registry)
  ultimately show ?thesis
    using assms
    by (cases m)
       (auto simp: handleExtensionMessage_def handleExtensionError_def fresh_route_result
          fresh_legacy split: option.splits)
qed

lemma fresh_unregister:
  assumes "ids_fresh s"
  shows "ids_fresh (handleUnregister sid now s)"
proof -
  have "ids_fresh
     (case map_of (clientSessions s) sid of
        None \<Rightarrow> s
      | Some session \<Rightarrow>
          (if truthy (cs_windowId session) \<and> extensionConnection s \<noteq> None
           then (let (reqId, s') = generateRequestId now s
                 in sendToExtension
                      (ORoute reqId sid ''close_window'' [(''sessionId'', JStr sid)]) s')
           else s))"
    using assms fresh_bump [OF assms, of now]
    by (simp add: split_beta fresh_sends split: option.splits)
  then show ?thesis
    by (simp add: handleUnregister_def Let_def fresh_sends fresh_registry)
qed

lemma fresh_connect_wait:
  assumes "ids_fresh s"
  shows "ids_fresh (resume_connect_wait wt now s)"
  using assms
  by (cases "connect_loop_head (w_startTime wt) EXTENSION_CONNECT_TIMEOUT_MS now s")
     (simp_all add: resume_connect_wait_def handleCommand_connected_def fresh_send_command
        fresh_sends fresh_fields)

lemma fresh_command:
  assumes "ids_fresh s"
  shows "ids_fresh (handleCommand r sid cmd ps w now e s)"
proof (cases "extensionConnection s")
  case (Some c)
  then show ?thesis
    using assms by (simp add: handleCommand_def handleCommand_connected_def fresh_send_command)
next
  case None
  have "ids_fresh (snd (startChrome e s))"
    using assms by (auto simp: startChrome_def fresh_fields split: option.splits)
  then show ?thesis
    using None by (simp add: handleCommand_def split_beta fresh_sends fresh_connect_wait)
qed

lemma fresh_client_message:
  assumes "ids_fresh s"
  shows "ids_fresh (handleClientMessage m w now e s)"
  using assms
  by (cases m)
     (auto simp: handleClientMessage_def handleRegister_def Let_def fresh_unregister fresh_command
        fresh_sends fresh_fields fresh_registry split: option.splits)

lemma fresh_ws_message:
  assumes "ids_fresh s"
  shows "ids_fresh (ws_message w m now e s)"
  using assms fresh_client_message [OF assms] fresh_extension_message [OF assms]
  by (cases m) (simp_all add: ws_message_def fresh_fields)

lemma fresh_close:
  assumes "ids_fresh s"
  shows "ids_fresh (ws_close w s)"
proof -
  have "ids_fresh (s\<lparr>pendingRequests := [], extensionConnection := None, effects := x\<rparr>)" for x
    by (simp add: ids_fresh_def)
  then show ?thesis
    using assms by (auto simp: ws_close_def foldl_reject fresh_registry split: option.splits)
qed

lemma fresh_sweep:
  assumes "ids_fresh s"
  shows "ids_fresh (staleCheck now s)"
proof -
  have "ids_fresh
          (foldl (\<lambda>st (sessionId, session).
                    if int now - int (cs_lastSeen session) > int CLIENT_KEEPALIVE_TIMEOUT_MS
                    then unregisterClient sessionId st
                    else st) st xs)" if "ids_fresh st" for st xs
    using that
  proof (induction xs arbitrary: st)
    case Nil
    then show ?case by simp
  next
    case (Cons a xs)
    then show ?case
      by (cases a) (simp add: fresh_registry)
  qed
  then show ?thesis
    using assms by (simp add: staleCheck_def)
qed

lemma fresh_poll:
  assumes "ids_fresh s"
  shows "ids_fresh (connect_poll n now s)"
  using assms by (simp add: connect_poll_def Let_def fresh_connect_wait fresh_fields split: poll.splits)

lemma fresh_step:
  assumes "ids_fresh s"
  shows "ids_fresh (step s ev)"
proof (cases ev)
  case (WsMessage w m now e)
  then show ?thesis using assms by (simp add: fresh_ws_message)
next
  case (WsClose w)
  then show ?thesis using assms by (simp add: fresh_close)
next
  case (RequestTimer rid now)
  then show ?thesis
    using assms by (auto simp: request_timeout_def fresh_sends fresh_delete split: option.splits)
next
  case (ConnectPollTimer n now)
  then show ?thesis using assms by (simp add: fresh_poll)
next
  case (StaleCheckTimer now)
  then show ?thesis using assms by (simp add: fresh_sweep)
next
  case PingTimer
  then show ?thesis
    using assms by (auto simp: extensionPing_def fresh_fields split: option.splits)
qed

lemma fresh_run: "ids_fresh s \<Longrightarrow> ids_fresh (run s es)"
proof (induction es arbitrary: s)
  case Nil
  then show ?case by (simp add: run_def)
next
  case (Cons ev es)
  then have "ids_fresh (run (step s ev) es)"
    using fresh_step by blast
  then show ?case by (simp add: run_def)
qed

lemma fresh_reachable: "ids_fresh (run init es)"
  by (rule fresh_run) (simp add: ids_fresh_def init_def)

lemma settled_stays_gone:
  assumes "ids_fresh s" and "map_of (pendingRequests s) rid = Some p"
  shows "map_of (pendingRequests
            (resume_resolve k payload now (s\<lparr>pendingRequests := AList.delete rid (pendingRequests s)\<rparr>)))
           rid = None"
proof -
  let ?s1 = "s\<lparr>pendingRequests := AList.delete rid (pendingRequests s)\<rparr>"
  have "rid \<in> fst ` set (pendingRequests s)"
    using assms(2) by (metis map_of_eq_None_iff option.distinct(1))
  then obtain c t where rid: "rid = request_id c t" and c: "c \<le> requestIdCounter s"
    using assms(1) unfolding ids_fresh_def by blast
  have new: "request_id (requestIdCounter s + 1) t' \<noteq> rid" for t'
    using request_id_inj [of "requestIdCounter s + 1" t' c t] rid c by auto
  have send: "map_of (pendingRequests (sendCommandToExtension cmd ps sid k' now s')) rid = None"
    if "pendingRequests s' = AList.delete rid (pendingRequests s)"
      and "requestIdCounter s' = requestIdCounter s" for cmd ps sid k' s'
    using that new [of now]
    by (cases "extensionConnection s'")
       (simp_all add: sendCommandToExtension_def resume_reject_eq generateRequestId_def
          request_id_def sendToExtension_def Let_def AList.update_conv' map_of_delete_same)
  show ?thesis
  proof (cases k)
    case (AwaitCreateWindow w r sid cmd ps)
    then show ?thesis
      by (simp add: resume_resolve_def sendErrorToClient_def map_of_delete_same send registry_frame)
  next
    case (AwaitCommand w r sid)
    then show ?thesis
      by (simp add: resume_resolve_def sendResponseToClient_def map_of_delete_same)
  qed
qed

subsection \<open>Every message sent comes from a command received\<close>

lemma origin_registry:
  "origin_inv C U (registerClient sid l w now s) = origin_inv C U s"
  "origin_inv C U (unregisterClient sid s) = origin_inv C U s"
  "origin_inv C U (updateClientLastSeen sid now s) = origin_inv C U s"
  "origin_inv C U (setClientWindowId sid wid s) = origin_inv C U s"
  "origin_inv C U (clearAllWindowIds s) = origin_inv C U s"
  by (simp_all add: origin_inv_def registry_frame)

lemma origin_effect:
  assumes "origin_inv C U s" and "action_from C U a"
  shows "origin_inv C U (s\<lparr>effects := effects s @ [a]\<rparr>)"
  using assms by (simp add: origin_inv_def)

lemma origin_to_client:
  assumes "origin_inv C U s" and "client_of C w r sid"
  shows "origin_inv C U (sendErrorToClient w r sid code msg s)"
    and "origin_inv C U (sendResponseToClient w r sid payload s)"
  using assms
  by (simp_all add: sendErrorToClient_def sendResponseToClient_def origin_effect action_from_def)

lemma cont_from_client:
  assumes "cont_from C k"
  shows "client_of C (cont_clientWs k) (cont_reqId k) (cont_sessionId k)"
  using assms
  by (cases k)
     (auto simp: cont_from_def client_of_def cont_clientWs_def cont_reqId_def cont_sessionId_def)

lemma origin_reject:
  assumes "origin_inv C U s" and "cont_from C k"
  shows "origin_inv C U (resume_reject k msg s)"
  unfolding resume_reject_eq rejection_def
  by (rule origin_effect [OF assms(1)]) (simp add: action_from_def cont_from_client [OF assms(2)])

lemma origin_to_extension:
  assumes "origin_inv C U s" and "\<And>w. action_from C U (Send w m)"
  shows "origin_inv C U (sendToExtension m s)"
  using assms by (simp add: sendToExtension_def origin_effect split: option.splits)

lemma origin_broadcast:
  "origin_inv C U s \<Longrightarrow> origin_inv C U (broadcastSessionsToExtension s)"
  by (simp add: broadcastSessionsToExtension_def origin_to_extension action_from_def)

lemma origin_send_command:
  assumes "origin_inv C U s" and "cont_from C k"
    and "route_from C U sid cmd (AList.update ''sessionId'' (JStr sid) ps)"
  shows "origin_inv C U (sendCommandToExtension cmd ps sid k now s)"
proof (cases "extensionConnection s")
  case None
  then show ?thesis
    using assms(1,2) by (simp add: sendCommandToExtension_def origin_reject)
next
  case (Some c)
  let ?rid = "fst (generateRequestId now s)"
  let ?p = "\<lparr>pr_cont = k, pr_timeout = now + REQUEST_TIMEOUT_MS, pr_sessionId = sid\<rparr>"
  let ?s2 = "s\<lparr>requestIdCounter := requestIdCounter s + 1,
               pendingRequests := AList.update ?rid ?p (pendingRequests s)\<rparr>"
  have "origin_inv C U ?s2"
    using assms(1,2) set_update_subset [of ?rid ?p "pendingRequests s"]
    by (auto simp: origin_inv_def)
  moreover have "action_from C U (Send w (ORoute ?rid sid cmd (AList.update ''sessionId'' (JStr sid) ps)))"
    for w
    using assms(3) by (simp add: action_from_def)
  ultimately have "origin_inv C U
      (sendToExtension (ORoute ?rid sid cmd (AList.update ''sessionId'' (JStr sid) ps)) ?s2)"
    by (rule origin_to_extension)
  then show ?thesis
    using Some by (simp add: sendCommandToExtension_def generateRequestId_def Let_def)
qed

lemma origin_resolve:
  assumes "origin_inv C U s" and "cont_from C k"
  shows "origin_inv C U (resume_resolve k payload now s)"
proof (cases k)
  case (AwaitCreateWindow w r sid cmd ps)
  have mem: "(w, r, sid, cmd, ps) \<in> C"
    using assms(2) AwaitCreateWindow by (simp add: cont_from_def)
  then have cl: "client_of C w r sid"
    by (auto simp: client_of_def)
  have s1: "origin_inv C U (setClientWindowId sid (get_windowId payload) s)"
    using assms(1) by (simp add: origin_registry)
  have k2: "cont_from C (AwaitCommand w r sid)"
    using cl by (simp add: cont_from_def)
  have rt: "route_from C U sid cmd (AList.update ''sessionId'' (JStr sid) ps)"
    using mem unfolding route_from_def by blast
  show ?thesis
  proof (cases "truthy (get_windowId payload)")
    case True
    then show ?thesis
      using AwaitCreateWindow origin_send_command [OF s1 k2 rt]
      by (simp add: resume_resolve_def)
  next
    case False
    then show ?thesis
      using AwaitCreateWindow origin_to_client(1) [OF assms(1) cl]
      by (simp add: resume_resolve_def)
  qed
next
  case (AwaitCommand w r sid)
  then have "client_of C w r sid"
    using assms(2) by (simp add: cont_from_def)
  then show ?thesis
    using AwaitCommand origin_to_client(2) [OF assms(1)]
    by (simp add: resume_resolve_def)
qed

lemma origin_lookup:
  assumes "origin_inv C U s" and "map_of (pendingRequests s) rid = Some p"
  shows "cont_from C (pr_cont p)"
  using assms(1) map_of_SomeD [OF assms(2)] by (auto simp: origin_inv_def)

lemma origin_delete:
  assumes "origin_inv C U s"
  shows "origin_inv C U (s\<lparr>pendingRequests := AList.delete rid (pendingRequests s)\<rparr>)"
  using assms set_delete_subset [of rid "pendingRequests s"] by (auto simp: origin_inv_def)

lemma origin_route_result:
  assumes "origin_inv C U s"
  shows "origin_inv C U (handleRouteResult b rid payload em now s)"
proof (cases rid)
  case None
  then show ?thesis using assms by (simp add: handleRouteResult_def)
next
  case (Some reqId)
  show ?thesis
  proof (cases "map_of (pendingRequests s) reqId")
    case None
    then show ?thesis using assms Some by (simp add: handleRouteResult_def)
  next
    case (Some p)
    note k = origin_lookup [OF assms Some]
    note d = origin_delete [OF assms, of reqId]
    show ?thesis
      using \<open>rid = Some reqId\<close> Some assms origin_reject [OF d k] origin_resolve [OF d k]
      by (simp add: handleRouteResult_def Let_def)
  qed
qed

lemma origin_legacy:
  assumes "origin_inv C U s"
  shows "origin_inv C U (handleLegacyMessage rid err result now s)"
proof (cases "map_of (pendingRequests s) rid")
  case None
  then show ?thesis using assms by (simp add: handleLegacyMessage_def)
next
  case (Some p)
  note k = origin_lookup [OF assms Some]
  note d = origin_delete [OF assms, of rid]
  show ?thesis
    using Some origin_reject [OF d k] origin_resolve [OF d k]
    by (simp add: handleLegacyMessage_def Let_def split: option.splits)
qed

lemma origin_hello:
  assumes "origin_inv C U s"
  shows "origin_inv C U (handleExtensionHello pid caps w now s)"
proof -
  have "origin_inv C U (clearAllWindowIds s)"
    using assms by (simp add: origin_registry)
  then have "origin_inv C U ((clearAllWindowIds s)\<lparr>extensionConnection := x\<rparr>)" for x
    by (simp add: origin_inv_def)
  then show ?thesis
    by (simp add: handleExtensionHello_def Let_def origin_broadcast origin_to_extension
          action_from_def)
qed

lemma origin_extension_message:
  assumes "origin_inv C U s"
  shows "origin_inv C U (handleExtensionMessage m w now s)"
proof -
  have "origin_inv C U (handleTabClosed a b s)" for a b
    using assms by (auto simp: handleTabClosed_def origin_inv_def split: option.splits)
  moreover have "origin_inv C U (handleWindowClosed x s)" for x
    using assms by (auto simp: handleWindowClosed_def origin_registry split: option.splits)
  ultimately show ?thesis
    using assms
    by (cases m)
       (auto simp: handleExtensionMessage_def handleExtensionError_def origin_hello
          origin_route_result origin_legacy split: option.splits)
qed

lemma origin_register:
  assumes "origin_inv C U s"
  shows "origin_inv C U (handleRegister sid l w now s)"
proof -
  have "origin_inv C U (registerClient sid l w now s)"
    using assms by (simp add: origin_registry)
  then have "origin_inv C U ((registerClient sid l w now s)
      \<lparr>effects := effects (registerClient sid l w now s) @ [Send w (ORegistered sid True)]\<rparr>)"
    by (rule origin_effect) (simp add: action_from_def)
  then show ?thesis
    by (simp add: handleRegister_def Let_def origin_broadcast)
qed

lemma origin_unregister:
  assumes "origin_inv C U s" and "sid \<in> U"
  shows "origin_inv C U (handleUnregister sid now s)"
proof -
  have bump: "origin_inv C U (snd (generateRequestId now s))"
    using assms(1) by (simp add: generateRequestId_def Let_def origin_inv_def)
  have "origin_inv C U
          (sendToExtension
             (ORoute (fst (generateRequestId now s)) sid ''close_window'' [(''sessionId'', JStr sid)])
             (snd (generateRequestId now s)))"
    using bump by (rule origin_to_extension) (simp add: action_from_def route_from_def assms(2))
  then have "origin_inv C U
     (case map_of (clientSessions s) sid of
        None \<Rightarrow> s
      | Some session \<Rightarrow>
          (if truthy (cs_windowId session) \<and> extensionConnection s \<noteq> None
           then (let (reqId, s') = generateRequestId now s
                 in sendToExtension
                      (ORoute reqId sid ''close_window'' [(''sessionId'', JStr sid)]) s')
           else s))"
    using assms(1) by (simp add: split_beta split: option.splits)
  then show ?thesis
    by (simp add: handleUnregister_def Let_def origin_broadcast origin_registry)
qed

lemma origin_command_connected:
  assumes "origin_inv C U s" and "(w, r, sid, cmd, ps) \<in> C"
  shows "origin_inv C U (handleCommand_connected w r sid cmd ps now s)"
proof -
  have k1: "cont_from C (AwaitCreateWindow w r sid cmd ps)"
    using assms(2) by (simp add: cont_from_def)
  have k2: "cont_from C (AwaitCommand w r sid)"
    using assms(2) by (auto simp: cont_from_def client_of_def)
  have r1: "route_from C U sid ''create_window''
              (AList.update ''sessionId'' (JStr sid) [(''sessionId'', JStr sid)])"
    using assms(2) unfolding route_from_def by (simp, blast)
  have r2: "route_from C U sid cmd (AList.update ''sessionId'' (JStr sid) ps)"
    using assms(2) unfolding route_from_def by blast
  show ?thesis
    using origin_send_command [OF assms(1) k1 r1] origin_send_command [OF assms(1) k2 r2]
    by (simp add: handleCommand_connected_def)
qed

lemma origin_connect_wait:
  assumes "origin_inv C U s" and "waiter_from C wt"
  shows "origin_inv C U (resume_connect_wait wt now s)"
proof (cases "connect_loop_head (w_startTime wt) EXTENSION_CONNECT_TIMEOUT_MS now s")
  case Connected
  then show ?thesis
    using origin_command_connected [OF assms(1) assms(2) [unfolded waiter_from_def]]
    by (simp add: resume_connect_wait_def)
next
  case Sleeping
  then show ?thesis
    using assms by (simp add: resume_connect_wait_def origin_inv_def)
next
  case TimedOut
  have "client_of C (w_clientWs wt) (w_reqId wt) (w_sessionId wt)"
    using assms(2) by (auto simp: waiter_from_def client_of_def)
  then show ?thesis
    using TimedOut origin_to_client(1) [OF assms(1)] by (simp add: resume_connect_wait_def)
qed

lemma origin_command:
  assumes "origin_inv C U s" and "(w, r, sid, cmd, ps) \<in> C"
  shows "origin_inv C U (handleCommand r sid cmd ps w now e s)"
proof (cases "extensionConnection s")
  case (Some c)
  then show ?thesis
    using assms by (simp add: handleCommand_def origin_command_connected)
next
  case None
  have s1: "origin_inv C U (snd (startChrome e s))"
    using assms(1) by (auto simp: startChrome_def origin_inv_def split: option.splits)
  have cl: "client_of C w r sid"
    using assms(2) by (auto simp: client_of_def)
  have wt: "waiter_from C \<lparr>w_clientWs = w, w_reqId = r, w_sessionId = sid, w_command = cmd,
                            w_params = ps, w_startTime = now\<rparr>"
    using assms(2) by (simp add: waiter_from_def)
  show ?thesis
    using None origin_to_client(1) [OF s1 cl] origin_connect_wait [OF s1 wt]
    by (simp add: handleCommand_def split_beta)
qed

lemma origin_client_message:
  assumes "origin_inv C U s" and "event_commands (WsMessage w m now e) \<subseteq> C"
    and "event_unregisters (WsMessage w m now e) \<subseteq> U"
  shows "origin_inv C U (handleClientMessage m w now e s)"
  using assms
  by (cases m)
     (auto simp: handleClientMessage_def origin_register origin_unregister origin_command
        origin_registry split: option.splits)

lemma origin_ws_message:
  assumes "origin_inv C U s" and "event_commands (WsMessage w m now e) \<subseteq> C"
    and "event_unregisters (WsMessage w m now e) \<subseteq> U"
  shows "origin_inv C U (ws_message w m now e s)"
proof -
  have "origin_inv C U (s\<lparr>effects := effects s @ [CloseConn w 4000 ''Extension already connected'']\<rparr>)"
    using assms(1) by (rule origin_effect) (simp add: action_from_def)
  then show ?thesis
    using assms origin_client_message [OF assms] origin_extension_message [OF assms(1)]
    by (cases m) (simp_all add: ws_message_def)
qed

lemma origin_close:
  assumes "origin_inv C U s"
  shows "origin_inv C U (ws_close w s)"
proof -
  have "action_from C U (rejection ''Extension disconnected'' (pr_cont p))"
    if "(rid, p) \<in> set (pendingRequests s)" for rid p
  proof -
    have "cont_from C (pr_cont p)"
      using assms that by (auto simp: origin_inv_def)
    then show ?thesis
      by (simp add: rejection_def action_from_def cont_from_client)
  qed
  then have "origin_inv C U
          (s\<lparr>pendingRequests := [], extensionConnection := None,
             effects := effects s @
               map (\<lambda>(reqId, pending). rejection ''Extension disconnected'' (pr_cont pending))
                 (pendingRequests s)\<rparr>)"
    using assms by (auto simp: origin_inv_def)
  then show ?thesis
    using assms
    by (auto simp: ws_close_def foldl_reject origin_registry split: option.splits)
qed

lemma origin_sweep:
  assumes "origin_inv C U s"
  shows "origin_inv C U (staleCheck now s)"
proof -
  have "origin_inv C U
          (foldl (\<lambda>st (sessionId, session).
                    if int now - int (cs_lastSeen session) > int CLIENT_KEEPALIVE_TIMEOUT_MS
                    then unregisterClient sessionId st
                    else st) st xs)" if "origin_inv C U st" for st xs
    using that
  proof (induction xs arbitrary: st)
    case Nil
    then show ?case by simp
  next
    case (Cons a xs)
    then show ?case
      by (cases a) (simp add: origin_registry)
  qed
  then show ?thesis
    using assms by (simp add: staleCheck_def)
qed

lemma origin_poll:
  assumes "origin_inv C U s"
  shows "origin_inv C U (connect_poll n now s)"
proof (cases "n < length (connectWaiters s)")
  case False
  then show ?thesis using assms by (simp add: connect_poll_def)
next
  case True
  let ?wt = "connectWaiters s ! n"
  let ?s1 = "s\<lparr>connectWaiters := take n (connectWaiters s) @ drop (Suc n) (connectWaiters s)\<rparr>"
  have "?wt \<in> set (connectWaiters s)"
    using True by simp
  then have wt: "waiter_from C ?wt"
    using assms by (simp add: origin_inv_def)
  have "set (take n (connectWaiters s) @ drop (Suc n) (connectWaiters s)) \<subseteq> set (connectWaiters s)"
    using set_take_subset set_drop_subset by fastforce
  then have "origin_inv C U ?s1"
    using assms by (auto simp: origin_inv_def)
  then have "origin_inv C U (resume_connect_wait ?wt now ?s1)"
    using wt by (rule origin_connect_wait)
  then show ?thesis
    using True assms by (simp add: connect_poll_def Let_def split: poll.splits)
qed

lemma origin_step:
  assumes "origin_inv C U s" and "event_commands ev \<subseteq> C" and "event_unregisters ev \<subseteq> U"
  shows "origin_inv C U (step s ev)"
proof (cases ev)
  case (WsMessage w m now e)
  then show ?thesis using assms by (simp add: origin_ws_message)
next
  case (WsClose w)
  then show ?thesis using assms by (simp add: origin_close)
next
  case (RequestTimer rid now)
  show ?thesis
  proof (cases "map_of (pendingRequests s) rid")
    case None
    then show ?thesis using assms(1) RequestTimer by (simp add: request_timeout_def)
  next
    case (Some p)
    then show ?thesis
      using RequestTimer assms(1)
        origin_reject [OF origin_delete [OF assms(1), of rid] origin_lookup [OF assms(1) Some]]
      by (simp add: request_timeout_def)
  qed
next
  case (ConnectPollTimer n now)
  then show ?thesis using assms by (simp add: origin_poll)
next
  case (StaleCheckTimer now)
  then show ?thesis using assms by (simp add: origin_sweep)
next
  case PingTimer
  then show ?thesis
    using assms(1)
    by (auto simp: extensionPing_def origin_effect action_from_def split: option.splits)
qed

lemma origin_run:
  assumes "origin_inv C U s" and "commands_received es \<subseteq> C" and "sessions_unregistered es \<subseteq> U"
  shows "origin_inv C U (run s es)"
  using assms
proof (induction es arbitrary: s)
  case Nil
  then show ?case by (simp add: run_def)
next
  case (Cons ev es)
  have "event_commands ev \<subseteq> C" and "commands_received es \<subseteq> C"
    using Cons.prems(2) by (auto simp: commands_received_def)
  moreover have "event_unregisters ev \<subseteq> U" and "sessions_unregistered es \<subseteq> U"
    using Cons.prems(3) by (auto simp: sessions_unregistered_def)
  ultimately have "origin_inv C U (run (step s ev) es)"
    using Cons.IH Cons.prems(1) origin_step by blast
  then show ?case by (simp add: run_def)
qed

lemma origin_reachable:
  "origin_inv (commands_received es) (sessions_unregistered es) (run init es)"
  by (rule origin_run) (simp_all add: origin_inv_def init_def)

subsection \<open>What one command does, step by step\<close>

lemma connected_state:
  assumes "extensionConnection s = Some c"
  shows "handleCommand_connected cw r sid cmd ps now s =
           s\<lparr>requestIdCounter := requestIdCounter s + 1,
             pendingRequests :=
               AList.update (fst (generateRequestId now s))
                 \<lparr>pr_cont = (if sid \<in> windowCache s then AwaitCommand cw r sid
                              else AwaitCreateWindow cw r sid cmd ps),
                  pr_timeout = now + 30000, pr_sessionId = sid\<rparr> (pendingRequests s),
             effects := effects s @
               [Send (ec_ws c)
                  (ORoute (fst (generateRequestId now s)) sid
                     (if sid \<in> windowCache s then cmd else ''create_window'')
                     (if sid \<in> windowCache s then AList.update ''sessionId'' (JStr sid) ps
                      else [(''sessionId'', JStr sid)]))]\<rparr>"
  using assms
  by (simp add: handleCommand_connected_def sendCommandToExtension_def generateRequestId_def
        sendToExtension_def Let_def REQUEST_TIMEOUT_MS_def)

lemma command_bound:
  assumes "extensionConnection s = Some c"
  shows "step s (WsMessage cw (Command r sid cmd ps) now e)
           = handleCommand_connected cw r sid cmd ps now s"
  using assms by (simp add: ws_message_def handleClientMessage_def handleCommand_def)

lemma command_unbound:
  assumes "extensionConnection s = None"
  shows "step s (WsMessage cw (Command r sid cmd ps) now e) =
           (if fst (startChrome e s)
            then (snd (startChrome e s))
                   \<lparr>connectWaiters := connectWaiters s @
                      [\<lparr>w_clientWs = cw, w_reqId = r, w_sessionId = sid, w_command = cmd,
                        w_params = ps, w_startTime = now\<rparr>]\<rparr>
            else s\<lparr>effects := effects s @ [not_connected_error cw r sid]\<rparr>)"
proof (cases "fst (startChrome e s)")
  case True
  have "connect_loop_head now EXTENSION_CONNECT_TIMEOUT_MS now (snd (startChrome e s)) = Sleeping"
    using assms by (simp add: connect_loop_head_def EXTENSION_CONNECT_TIMEOUT_MS_def)
  with True assms show ?thesis
    by (simp add: ws_message_def handleClientMessage_def handleCommand_def resume_connect_wait_def
          split_beta)
next
  case False
  with assms startChrome_fails [OF False] show ?thesis
    by (simp add: ws_message_def handleClientMessage_def handleCommand_def sendErrorToClient_def
          not_connected_error_def split_beta)
qed

lemma poll_connected:
  assumes "extensionConnection s = Some c" and "n < length (connectWaiters s)"
    and "int now - int (w_startTime (connectWaiters s ! n)) < 15000"
  shows "step s (ConnectPollTimer n now)
           = step (s\<lparr>connectWaiters := take n (connectWaiters s) @ drop (Suc n) (connectWaiters s)\<rparr>)
               (WsMessage (w_clientWs (connectWaiters s ! n))
                  (Command (w_reqId (connectWaiters s ! n)) (w_sessionId (connectWaiters s ! n))
                     (w_command (connectWaiters s ! n)) (w_params (connectWaiters s ! n)))
                  now e)"
proof -
  let ?wt = "connectWaiters s ! n"
  let ?s1 = "s\<lparr>connectWaiters := take n (connectWaiters s) @ drop (Suc n) (connectWaiters s)\<rparr>"
  have head: "connect_loop_head (w_startTime ?wt) EXTENSION_CONNECT_TIMEOUT_MS now s' = Connected"
    if "extensionConnection s' = Some c" for s'
    using that assms(3) by (simp add: connect_loop_head_def EXTENSION_CONNECT_TIMEOUT_MS_def)
  have ext1: "extensionConnection ?s1 = Some c"
    using assms(1) by simp
  have "connect_poll n now s = resume_connect_wait ?wt now ?s1"
    using assms(2) head [OF assms(1)] by (simp add: connect_poll_def Let_def)
  also have "\<dots> = handleCommand_connected (w_clientWs ?wt) (w_reqId ?wt) (w_sessionId ?wt)
                     (w_command ?wt) (w_params ?wt) now ?s1"
    using head [OF ext1] by (simp add: resume_connect_wait_def)
  also have "\<dots> = step ?s1 (WsMessage (w_clientWs ?wt)
                  (Command (w_reqId ?wt) (w_sessionId ?wt) (w_command ?wt) (w_params ?wt)) now e)"
    by (rule command_bound [OF ext1, symmetric])
  finally show ?thesis
    by simp
qed



subsection \<open>The states of the scenarios\<close>

lemmas handler_defs =
  ws_message_def ws_close_def handleClientMessage_def handleExtensionMessage_def
  handleExtensionHello_def handleRegister_def handleUnregister_def handleCommand_def
  handleCommand_connected_def handleRouteResult_def handleExtensionError_def handleWindowClosed_def
  handleTabClosed_def resume_resolve_def resume_reject_def sendCommandToExtension_def
  sendToExtension_def sendResponseToClient_def sendErrorToClient_def broadcastSessionsToExtension_def
  getSessionList_def clearAllWindowIds_def registerClient_def unregisterClient_def
  updateClientLastSeen_def setClientWindowId_def generateRequestId_def request_timeout_def
  staleCheck_def connect_poll_def resume_connect_wait_def connect_loop_head_def startChrome_def
  findChrome_def CHROME_PATHS_def get_windowId_def truthy_def str_truthy_def
  EXTENSION_CONNECT_TIMEOUT_MS_def CLIENT_KEEPALIVE_TIMEOUT_MS_def REQUEST_TIMEOUT_MS_def WS_PORT_def
  PROTOCOL_VERSION_def
  no_chrome_def with_chrome_def

lemma radix_small: "n < b \<Longrightarrow> radix b n = [digit_char n]"
  by (simp add: radix.simps)

lemma radix_port: "radix 10 9876 = ''9876''"
  by (simp add: radix.simps digit_char_def)

lemmas radix_values = radix_small radix_port digit_char_def

lemma st_bound_eq:
  "st_bound =
     \<lparr>clientSessions = [], windowCache = {},
         extensionConnection =
           Some
            \<lparr>ec_ws = 9, ec_profileId = ''default'', ec_capabilities = [],
               ec_connectedAt = 1\<rparr>,
         tabRouting = [], pendingRequests = [], requestIdCounter = 0,
         chromeProcess = None, connectWaiters = [],
         effects =
           [Send 9 (OWelcome ''helm-daemon-9876'' 3 []),
            Send 9 (OSessions [] [])]\<rparr>"
  by (simp add: st_bound_def init_def ev_hello_def handler_defs radix_values)

lemma st_registered_eq:
  "st_registered =
     \<lparr>clientSessions =
         [(''s1'',
           \<lparr>cs_sessionId = ''s1'', cs_label = ''L'', cs_ws = 1,
              cs_windowId = JNull, cs_registeredAt = 2, cs_lastSeen = 2\<rparr>)],
         windowCache = {},
         extensionConnection =
           Some
            \<lparr>ec_ws = 9, ec_profileId = ''default'', ec_capabilities = [],
               ec_connectedAt = 1\<rparr>,
         tabRouting = [], pendingRequests = [], requestIdCounter = 0,
         chromeProcess = None, connectWaiters = [],
         effects =
           [Send 9 (OWelcome ''helm-daemon-9876'' 3 []),
            Send 9 (OSessions [] []), Send 1 (ORegistered ''s1'' True),
            Send 9
             (OSessions
               [\<lparr>si_sessionId = ''s1'', si_label = ''L'', si_windowId = JNull,
                   si_lastSeen = 2, si_status = ''pending''\<rparr>]
               [])]\<rparr>"
  by (simp add: st_registered_def st_bound_eq ev_register_def handler_defs radix_values)

lemma st_creating_eq:
  "st_creating =
     \<lparr>clientSessions =
         [(''s1'',
           \<lparr>cs_sessionId = ''s1'', cs_label = ''L'', cs_ws = 1,
              cs_windowId = JNull, cs_registeredAt = 2, cs_lastSeen = 2\<rparr>)],
         windowCache = {},
         extensionConnection =
           Some
            \<lparr>ec_ws = 9, ec_profileId = ''default'', ec_capabilities = [],
               ec_connectedAt = 1\<rparr>,
         tabRouting = [],
         pendingRequests =
           [(''req_1_3'',
             \<lparr>pr_cont =
                AwaitCreateWindow 1 ''r1'' ''s1'' ''navigate''
                 [(''url'', JStr ''https://example.com'')],
                pr_timeout = 30003, pr_sessionId = ''s1''\<rparr>)],
         requestIdCounter = 1, chromeProcess = None, connectWaiters = [],
         effects =
           [Send 9 (OWelcome ''helm-daemon-9876'' 3 []),
            Send 9 (OSessions [] []), Send 1 (ORegistered ''s1'' True),
            Send 9
             (OSessions
               [\<lparr>si_sessionId = ''s1'', si_label = ''L'', si_windowId = JNull,
                   si_lastSeen = 2, si_status = ''pending''\<rparr>]
               []),
            Send 9
             (ORoute ''req_1_3'' ''s1'' ''create_window''
               [(''sessionId'', JStr ''s1'')])]\<rparr>"
  by (simp add: st_creating_def st_registered_eq ev_command_def handler_defs radix_values)

lemma st_forwarded_eq:
  "st_forwarded =
     \<lparr>clientSessions =
         [(''s1'',
           \<lparr>cs_sessionId = ''s1'', cs_label = ''L'', cs_ws = 1,
              cs_windowId = JNum 42, cs_registeredAt = 2, cs_lastSeen = 2\<rparr>)],
         windowCache = {''s1''},
         extensionConnection =
           Some
            \<lparr>ec_ws = 9, ec_profileId = ''default'', ec_capabilities = [],
               ec_connectedAt = 1\<rparr>,
         tabRouting = [],
         pendingRequests =
           [(''req_2_4'',
             \<lparr>pr_cont = AwaitCommand 1 ''r1'' ''s1'', pr_timeout = 30004,
                pr_sessionId = ''s1''\<rparr>)],
         requestIdCounter = 2, chromeProcess = None, connectWaiters = [],
         effects =
           [Send 9 (OWelcome ''helm-daemon-9876'' 3 []),
            Send 9 (OSessions [] []), Send 1 (ORegistered ''s1'' True),
            Send 9
             (OSessions
               [\<lparr>si_sessionId = ''s1'', si_label = ''L'', si_windowId = JNull,
                   si_lastSeen = 2, si_status = ''pending''\<rparr>]
               []),
            Send 9
             (ORoute ''req_1_3'' ''s1'' ''create_window''
               [(''sessionId'', JStr ''s1'')]),
            Send 9
             (ORoute ''req_2_4'' ''s1'' ''navigate''
               [(''url'', JStr ''https://example.com''),
                (''sessionId'', JStr ''s1'')])]\<rparr>"
  by (simp add: st_forwarded_def st_creating_eq ev_window_def handler_defs radix_values)

lemma st_done_eq:
  "st_done =
     \<lparr>clientSessions =
         [(''s1'',
           \<lparr>cs_sessionId = ''s1'', cs_label = ''L'', cs_ws = 1,
              cs_windowId = JNum 42, cs_registeredAt = 2, cs_lastSeen = 2\<rparr>)],
         windowCache = {''s1''},
         extensionConnection =
           Some
            \<lparr>ec_ws = 9, ec_profileId = ''default'', ec_capabilities = [],
               ec_connectedAt = 1\<rparr>,
         tabRouting = [], pendingRequests = [], requestIdCounter = 2,
         chromeProcess = None, connectWaiters = [],
         effects =
           [Send 9 (OWelcome ''helm-daemon-9876'' 3 []),
            Send 9 (OSessions [] []), Send 1 (ORegistered ''s1'' True),
            Send 9
             (OSessions
               [\<lparr>si_sessionId = ''s1'', si_label = ''L'', si_windowId = JNull,
                   si_lastSeen = 2, si_status = ''pending''\<rparr>]
               []),
            Send 9
             (ORoute ''req_1_3'' ''s1'' ''create_window''
               [(''sessionId'', JStr ''s1'')]),
            Send 9
             (ORoute ''req_2_4'' ''s1'' ''navigate''
               [(''url'', JStr ''https://example.com''),
                (''sessionId'', JStr ''s1'')]),
            Send 1
             (OResponse ''r1'' ''s1''
               (Some (JObj [(''success'', JBool True)])))]\<rparr>"
  by (simp add: st_done_def st_forwarded_eq ev_result_def handler_defs radix_values)

lemma st_absent_eq:
  "st_absent =
     \<lparr>clientSessions =
         [(''s1'',
           \<lparr>cs_sessionId = ''s1'', cs_label = ''L'', cs_ws = 1,
              cs_windowId = JNum 42, cs_registeredAt = 2, cs_lastSeen = 2\<rparr>)],
         windowCache = {''s1''}, extensionConnection = None, tabRouting = [],
         pendingRequests = [], requestIdCounter = 2, chromeProcess = None,
         connectWaiters = [],
         effects =
           [Send 9 (OWelcome ''helm-daemon-9876'' 3 []),
            Send 9 (OSessions [] []), Send 1 (ORegistered ''s1'' True),
            Send 9
             (OSessions
               [\<lparr>si_sessionId = ''s1'', si_label = ''L'', si_windowId = JNull,
                   si_lastSeen = 2, si_status = ''pending''\<rparr>]
               []),
            Send 9
             (ORoute ''req_1_3'' ''s1'' ''create_window''
               [(''sessionId'', JStr ''s1'')]),
            Send 9
             (ORoute ''req_2_4'' ''s1'' ''navigate''
               [(''url'', JStr ''https://example.com''),
                (''sessionId'', JStr ''s1'')]),
            Send 1
             (OResponse ''r1'' ''s1''
               (Some (JObj [(''success'', JBool True)])))]\<rparr>"
  by (simp add: st_absent_def st_done_eq ev_close_def handler_defs radix_values)

lemma st_rebound_eq:
  "st_rebound =
     \<lparr>clientSessions =
         [(''s1'',
           \<lparr>cs_sessionId = ''s1'', cs_label = ''L'', cs_ws = 1,
              cs_windowId = JNull, cs_registeredAt = 2, cs_lastSeen = 2\<rparr>)],
         windowCache = {},
         extensionConnection =
           Some
            \<lparr>ec_ws = 10, ec_profileId = ''default'', ec_capabilities = [],
               ec_connectedAt = 7\<rparr>,
         tabRouting = [], pendingRequests = [], requestIdCounter = 2,
         chromeProcess = None, connectWaiters = [],
         effects =
           [Send 9 (OWelcome ''helm-daemon-9876'' 3 []),
            Send 9 (OSessions [] []), Send 1 (ORegistered ''s1'' True),
            Send 9
             (OSessions
               [\<lparr>si_sessionId = ''s1'', si_label = ''L'', si_windowId = JNull,
                   si_lastSeen = 2, si_status = ''pending''\<rparr>]
               []),
            Send 9
             (ORoute ''req_1_3'' ''s1'' ''create_window''
               [(''sessionId'', JStr ''s1'')]),
            Send 9
             (ORoute ''req_2_4'' ''s1'' ''navigate''
               [(''url'', JStr ''https://example.com''),
                (''sessionId'', JStr ''s1'')]),
            Send 1
             (OResponse ''r1'' ''s1'' (Some (JObj [(''success'', JBool True)]))),
            Send 10
             (OWelcome ''helm-daemon-9876'' 3
               [\<lparr>si_sessionId = ''s1'', si_label = ''L'', si_windowId = JNull,
                   si_lastSeen = 2, si_status = ''pending''\<rparr>]),
            Send 10
             (OSessions
               [\<lparr>si_sessionId = ''s1'', si_label = ''L'', si_windowId = JNull,
                   si_lastSeen = 2, si_status = ''pending''\<rparr>]
               [])]\<rparr>"
  by (simp add: st_rebound_def st_absent_eq ev_hello2_def handler_defs radix_values)

lemma st_recreating_eq:
  "st_recreating =
     \<lparr>clientSessions =
         [(''s1'',
           \<lparr>cs_sessionId = ''s1'', cs_label = ''L'', cs_ws = 1,
              cs_windowId = JNull, cs_registeredAt = 2, cs_lastSeen = 2\<rparr>)],
         windowCache = {},
         extensionConnection =
           Some
            \<lparr>ec_ws = 10, ec_profileId = ''default'', ec_capabilities = [],
               ec_connectedAt = 7\<rparr>,
         tabRouting = [],
         pendingRequests =
           [(''req_3_8'',
             \<lparr>pr_cont = AwaitCreateWindow 1 ''r2'' ''s1'' ''get_tabs'' [],
                pr_timeout = 30008, pr_sessionId = ''s1''\<rparr>)],
         requestIdCounter = 3, chromeProcess = None, connectWaiters = [],
         effects =
           [Send 9 (OWelcome ''helm-daemon-9876'' 3 []),
            Send 9 (OSessions [] []), Send 1 (ORegistered ''s1'' True),
            Send 9
             (OSessions
               [\<lparr>si_sessionId = ''s1'', si_label = ''L'', si_windowId = JNull,
                   si_lastSeen = 2, si_status = ''pending''\<rparr>]
               []),
            Send 9
             (ORoute ''req_1_3'' ''s1'' ''create_window''
               [(''sessionId'', JStr ''s1'')]),
            Send 9
             (ORoute ''req_2_4'' ''s1'' ''navigate''
               [(''url'', JStr ''https://example.com''),
                (''sessionId'', JStr ''s1'')]),
            Send 1
             (OResponse ''r1'' ''s1'' (Some (JObj [(''success'', JBool True)]))),
            Send 10
             (OWelcome ''helm-daemon-9876'' 3
               [\<lparr>si_sessionId = ''s1'', si_label = ''L'', si_windowId = JNull,
                   si_lastSeen = 2, si_status = ''pending''\<rparr>]),
            Send 10
             (OSessions
               [\<lparr>si_sessionId = ''s1'', si_label = ''L'', si_windowId = JNull,
                   si_lastSeen = 2, si_status = ''pending''\<rparr>]
               []),
            Send 10
             (ORoute ''req_3_8'' ''s1'' ''create_window''
               [(''sessionId'', JStr ''s1'')])]\<rparr>"
  by (simp add: st_recreating_def st_rebound_eq ev_command2_def handler_defs radix_values)

lemma st_closed_eq:
  "st_closed =
     \<lparr>clientSessions =
         [(''s1'',
           \<lparr>cs_sessionId = ''s1'', cs_label = ''L'', cs_ws = 1,
              cs_windowId = JNull, cs_registeredAt = 2, cs_lastSeen = 2\<rparr>)],
         windowCache = {''s1''},
         extensionConnection =
           Some
            \<lparr>ec_ws = 9, ec_profileId = ''default'', ec_capabilities = [],
               ec_connectedAt = 1\<rparr>,
         tabRouting = [], pendingRequests = [], requestIdCounter = 2,
         chromeProcess = None, connectWaiters = [],
         effects =
           [Send 9 (OWelcome ''helm-daemon-9876'' 3 []),
            Send 9 (OSessions [] []), Send 1 (ORegistered ''s1'' True),
            Send 9
             (OSessions
               [\<lparr>si_sessionId = ''s1'', si_label = ''L'', si_windowId = JNull,
                   si_lastSeen = 2, si_status = ''pending''\<rparr>]
               []),
            Send 9
             (ORoute ''req_1_3'' ''s1'' ''create_window''
               [(''sessionId'', JStr ''s1'')]),
            Send 9
             (ORoute ''req_2_4'' ''s1'' ''navigate''
               [(''url'', JStr ''https://example.com''),
                (''sessionId'', JStr ''s1'')]),
            Send 1
             (OResponse ''r1'' ''s1''
               (Some (JObj [(''success'', JBool True)])))]\<rparr>"
  by (simp add: st_closed_def st_done_eq ev_window_closed_def handler_defs radix_values)

lemma st_two_eq:
  "st_two =
     \<lparr>clientSessions =
         [(''s1'',
           \<lparr>cs_sessionId = ''s1'', cs_label = ''L'', cs_ws = 1,
              cs_windowId = JNull, cs_registeredAt = 2, cs_lastSeen = 2\<rparr>),
          (''s2'',
           \<lparr>cs_sessionId = ''s2'', cs_label = ''M'', cs_ws = 2,
              cs_windowId = JNull, cs_registeredAt = 3, cs_lastSeen = 3\<rparr>)],
         windowCache = {},
         extensionConnection =
           Some
            \<lparr>ec_ws = 9, ec_profileId = ''default'', ec_capabilities = [],
               ec_connectedAt = 1\<rparr>,
         tabRouting = [], pendingRequests = [], requestIdCounter = 0,
         chromeProcess = None, connectWaiters = [],
         effects =
           [Send 9 (OWelcome ''helm-daemon-9876'' 3 []),
            Send 9 (OSessions [] []), Send 1 (ORegistered ''s1'' True),
            Send 9
             (OSessions
               [\<lparr>si_sessionId = ''s1'', si_label = ''L'', si_windowId = JNull,
                   si_lastSeen = 2, si_status = ''pending''\<rparr>]
               []),
            Send 2 (ORegistered ''s2'' True),
            Send 9
             (OSessions
               [\<lparr>si_sessionId = ''s1'', si_label = ''L'', si_windowId = JNull,
                   si_lastSeen = 2, si_status = ''pending''\<rparr>,
                \<lparr>si_sessionId = ''s2'', si_label = ''M'', si_windowId = JNull,
                   si_lastSeen = 3, si_status = ''pending''\<rparr>]
               [])]\<rparr>"
  by (simp add: st_two_def st_registered_eq ev_register2_def handler_defs radix_values)

lemma st_waiting_eq:
  "st_waiting =
     \<lparr>clientSessions = [], windowCache = {}, extensionConnection = None,
         tabRouting = [], pendingRequests = [], requestIdCounter = 0,
         chromeProcess = Some 4242,
         connectWaiters =
           [\<lparr>w_clientWs = 1, w_reqId = ''r1'', w_sessionId = ''s1'',
               w_command = ''navigate'', w_params = [], w_startTime = 3\<rparr>],
         effects = []\<rparr>"
  by (simp add: st_waiting_def init_def ev_command_chrome_def handler_defs radix_values)

lemma st_waiting_bound_eq:
  "st_waiting_bound =
     \<lparr>clientSessions = [], windowCache = {},
         extensionConnection =
           Some
            \<lparr>ec_ws = 9, ec_profileId = ''default'', ec_capabilities = [],
               ec_connectedAt = 400\<rparr>,
         tabRouting = [], pendingRequests = [], requestIdCounter = 0,
         chromeProcess = Some 4242,
         connectWaiters =
           [\<lparr>w_clientWs = 1, w_reqId = ''r1'', w_sessionId = ''s1'',
               w_command = ''navigate'', w_params = [], w_startTime = 3\<rparr>],
         effects =
           [Send 9 (OWelcome ''helm-daemon-9876'' 3 []),
            Send 9 (OSessions [] [])]\<rparr>"
  by (simp add: st_waiting_bound_def st_waiting_eq ev_hello_late_def handler_defs radix_values)

section \<open>The claims\<close>

subsection \<open>C1: expiry of a request deadline\<close>




subsection \<open>C2: a command while no extension is connected\<close>

text \<open>
  Claim C2, as amended. A command that arrives while no extension connection is bound first
  tries to start the browser. If that fails, the client is sent an error with the code
  \<^verbatim>\<open>EXTENSION_NOT_CONNECTED\<close> at once, without waiting. Otherwise the command is
  suspended; each time its poll timer fires while no extension is bound, it stays suspended
  as long as less than 15000 ms have passed since it started waiting, and otherwise the
  client is sent an error with the code \<^verbatim>\<open>EXTENSION_NOT_CONNECTED\<close> and the reqId of the
  command, and the command is dropped. In none of these cases is anything sent to the
  extension or added to the pending table.
\<close>

theorem C2_no_extension:
  assumes "extensionConnection s = None"
  shows "step s (WsMessage w (Command reqId sid command ps) now e) =
           (if fst (startChrome e s)
            then (snd (startChrome e s))
                   \<lparr>connectWaiters := connectWaiters s @
                      [\<lparr>w_clientWs = w, w_reqId = reqId, w_sessionId = sid, w_command = command,
                        w_params = ps, w_startTime = now\<rparr>]\<rparr>
            else s\<lparr>effects := effects s @ [not_connected_error w reqId sid]\<rparr>)
       \<and> pendingRequests (step s (WsMessage w (Command reqId sid command ps) now e)) = pendingRequests s
       \<and> effects (step s (WsMessage w (Command reqId sid command ps) now e)) =
           effects s @ (if fst (startChrome e s) then [] else [not_connected_error w reqId sid])
       \<and> (\<forall>n now'. n < length (connectWaiters s) \<longrightarrow>
             step s (ConnectPollTimer n now') =
               (if int now' - int (w_startTime (connectWaiters s ! n)) < 15000
                then s
                else s\<lparr>connectWaiters := take n (connectWaiters s) @ drop (Suc n) (connectWaiters s),
                       effects := effects s @
                         [not_connected_error (w_clientWs (connectWaiters s ! n))
                            (w_reqId (connectWaiters s ! n)) (w_sessionId (connectWaiters s ! n))]\<rparr>))"
proof -
  have cmd: "step s (WsMessage w (Command reqId sid command ps) now e) =
           (if fst (startChrome e s)
            then (snd (startChrome e s))
                   \<lparr>connectWaiters := connectWaiters s @
                      [\<lparr>w_clientWs = w, w_reqId = reqId, w_sessionId = sid, w_command = command,
                        w_params = ps, w_startTime = now\<rparr>]\<rparr>
            else s\<lparr>effects := effects s @ [not_connected_error w reqId sid]\<rparr>)"
  proof (cases "fst (startChrome e s)")
    case True
    have "connect_loop_head now EXTENSION_CONNECT_TIMEOUT_MS now (snd (startChrome e s)) = Sleeping"
      using assms by (simp add: connect_loop_head_def EXTENSION_CONNECT_TIMEOUT_MS_def)
    with True assms show ?thesis
      by (simp add: ws_message_def handleClientMessage_def handleCommand_def resume_connect_wait_def
            split_beta)
  next
    case False
    with assms startChrome_fails [OF False] show ?thesis
      by (simp add: ws_message_def handleClientMessage_def handleCommand_def sendErrorToClient_def
            not_connected_error_def split_beta)
  qed
  have poll: "step s (ConnectPollTimer n now') =
               (if int now' - int (w_startTime (connectWaiters s ! n)) < 15000
                then s
                else s\<lparr>connectWaiters := take n (connectWaiters s) @ drop (Suc n) (connectWaiters s),
                       effects := effects s @
                         [not_connected_error (w_clientWs (connectWaiters s ! n))
                            (w_reqId (connectWaiters s ! n)) (w_sessionId (connectWaiters s ! n))]\<rparr>)"
    if n: "n < length (connectWaiters s)" for n now'
  proof -
    let ?wt = "connectWaiters s ! n"
    show ?thesis
    proof (cases "int now' - int (w_startTime ?wt) < 15000")
      case True
      then have "connect_loop_head (w_startTime ?wt) EXTENSION_CONNECT_TIMEOUT_MS now' s = Sleeping"
        using assms by (simp add: connect_loop_head_def EXTENSION_CONNECT_TIMEOUT_MS_def)
      with True n show ?thesis
        by (simp add: connect_poll_def Let_def)
    next
      case False
      then have h: "connect_loop_head (w_startTime ?wt) EXTENSION_CONNECT_TIMEOUT_MS now' s' = TimedOut" for s'
        by (simp add: connect_loop_head_def EXTENSION_CONNECT_TIMEOUT_MS_def)
      with False n show ?thesis
        by (simp add: connect_poll_def resume_connect_wait_def sendErrorToClient_def
              not_connected_error_def Let_def)
    qed
  qed
  have "pendingRequests (step s (WsMessage w (Command reqId sid command ps) now e)) = pendingRequests s"
    and "effects (step s (WsMessage w (Command reqId sid command ps) now e)) =
           effects s @ (if fst (startChrome e s) then [] else [not_connected_error w reqId sid])"
    unfolding cmd by simp_all
  with cmd poll show ?thesis
    by blast
qed

text \<open>
  With no browser executable on the machine the command fails in the event that delivers
  it (no wait), and the code is \<^verbatim>\<open>EXTENSION_NOT_CONNECTED\<close>, not \<^verbatim>\<open>AGENT_NOT_CONNECTED\<close>.
\<close>

theorem C2_counterexample:
  "error_codes_for 1 ''r1'' (effects (step init ev_command)) = [''EXTENSION_NOT_CONNECTED'']
   \<and> connectWaiters (step init ev_command) = []
   \<and> ''AGENT_NOT_CONNECTED'' \<notin> set (error_codes_for 1 ''r1'' (effects (step init ev_command)))"
  by (simp add: init_def ev_command_def handler_defs error_codes_for_def)

theorem C2_no_extension_witness:
  "extensionConnection init = None \<and> extensionConnection st_waiting = None
   \<and> step init ev_command = init\<lparr>effects := [not_connected_error 1 ''r1'' ''s1'']\<rparr>
   \<and> connectWaiters (step init ev_command_chrome)
       = [\<lparr>w_clientWs = 1, w_reqId = ''r1'', w_sessionId = ''s1'', w_command = ''navigate'',
           w_params = [], w_startTime = 3\<rparr>]
   \<and> step st_waiting (ConnectPollTimer 0 503) = st_waiting
   \<and> step st_waiting (ConnectPollTimer 0 15003)
       = st_waiting\<lparr>connectWaiters := [], effects := [not_connected_error 1 ''r1'' ''s1'']\<rparr>"
proof -
  have i: "extensionConnection init = None"
    by (simp add: init_def)
  have w: "extensionConnection st_waiting = None"
    by (simp add: st_waiting_eq)
  have c0: "\<not> fst (startChrome no_chrome init)"
    by (simp add: init_def handler_defs)
  have c1: "fst (startChrome with_chrome init)"
    by (simp add: init_def handler_defs)
  have a: "step init ev_command = init\<lparr>effects := [not_connected_error 1 ''r1'' ''s1'']\<rparr>"
    using C2_no_extension [OF i, of 1 "''r1''" "''s1''" "''navigate''"
        "[(''url'', JStr ''https://example.com'')]" 3 no_chrome] c0
    by (simp add: ev_command_def init_def)
  have b: "connectWaiters (step init ev_command_chrome)
       = [\<lparr>w_clientWs = 1, w_reqId = ''r1'', w_sessionId = ''s1'', w_command = ''navigate'',
           w_params = [], w_startTime = 3\<rparr>]"
    using C2_no_extension [OF i, of 1 "''r1''" "''s1''" "''navigate''" "[]" 3 with_chrome] c1
    by (simp add: ev_command_chrome_def init_def)
  have n: "0 < length (connectWaiters st_waiting)" and t: "w_startTime (connectWaiters st_waiting ! 0) = 3"
    by (simp_all add: st_waiting_eq)
  have p: "step st_waiting (ConnectPollTimer 0 503) = st_waiting"
    using C2_no_extension [OF w] n t by simp
  have q: "step st_waiting (ConnectPollTimer 0 15003)
       = st_waiting\<lparr>connectWaiters := [], effects := [not_connected_error 1 ''r1'' ''s1'']\<rparr>"
    using C2_no_extension [OF w] n t by (simp add: st_waiting_eq)
  show ?thesis
    using i w a b p q by simp
qed

subsection \<open>C3: the extension connection closes\<close>

text \<open>
  Claim C3, as amended. When the connection of the bound extension closes, in that one
  event every pending request is rejected with the error \<^verbatim>\<open>Extension disconnected\<close> (the
  client of each is sent an error with the code \<^verbatim>\<open>COMMAND_FAILED\<close>, or
  \<^verbatim>\<open>WINDOW_CREATION_FAILED\<close> for a \<^verbatim>\<open>create_window\<close> sub-request), the pending table is
  emptied and the extension connection is unset, so no extension can bind before that. The
  window cache, the sessions with their window ids and the tab routes are left as they are:
  they are cleared by the next \<^verbatim>\<open>hello\<close>.
\<close>

theorem C3_extension_close:
  assumes "extensionConnection s = Some c"
  shows "pendingRequests (step s (WsClose (ec_ws c))) = []
       \<and> extensionConnection (step s (WsClose (ec_ws c))) = None
       \<and> effects (step s (WsClose (ec_ws c))) =
           effects s @
             map (\<lambda>(reqId, pending). rejection ''Extension disconnected'' (pr_cont pending))
               (pendingRequests s)
       \<and> windowCache (step s (WsClose (ec_ws c))) = windowCache s
       \<and> clientSessions (step s (WsClose (ec_ws c))) = clientSessions s
       \<and> tabRouting (step s (WsClose (ec_ws c))) = tabRouting s"
  using assms by (simp add: ws_close_def foldl_reject)

text \<open>
  After scenario S1 up to the forwarded command, the extension connection closes: session
  \<^verbatim>\<open>s1\<close> is still in the window cache and still has window 42, and the error sent to the
  client has the code \<^verbatim>\<open>COMMAND_FAILED\<close>.
\<close>

theorem C3_counterexample:
  "windowCache (step st_forwarded (WsClose 9)) = {''s1''}
   \<and> map (\<lambda>(k, session). cs_windowId session) (clientSessions (step st_forwarded (WsClose 9))) = [JNum 42]
   \<and> error_codes_for 1 ''r1'' (effects (step st_forwarded (WsClose 9))) = [''COMMAND_FAILED'']"
  by (simp add: st_forwarded_eq ws_close_def resume_reject_def sendErrorToClient_def
        error_codes_for_def)

theorem C3_extension_close_witness:
  "extensionConnection st_forwarded
     = Some \<lparr>ec_ws = 9, ec_profileId = ''default'', ec_capabilities = [], ec_connectedAt = 1\<rparr>
   \<and> pendingRequests (step st_forwarded (WsClose 9)) = []
   \<and> extensionConnection (step st_forwarded (WsClose 9)) = None
   \<and> effects (step st_forwarded (WsClose 9))
       = effects st_forwarded @ [Send 1 (OError ''r1'' ''s1'' ''COMMAND_FAILED'' ''Extension disconnected'')]"
proof -
  have h: "extensionConnection st_forwarded
     = Some \<lparr>ec_ws = 9, ec_profileId = ''default'', ec_capabilities = [], ec_connectedAt = 1\<rparr>"
    by (simp add: st_forwarded_eq)
  have p: "pendingRequests st_forwarded
             = [(''req_2_4'', \<lparr>pr_cont = AwaitCommand 1 ''r1'' ''s1'', pr_timeout = 30004, pr_sessionId = ''s1''\<rparr>)]"
    by (simp add: st_forwarded_eq)
  show ?thesis
    using C3_extension_close [OF h] h
    by (simp add: p rejection_def cont_clientWs_def cont_reqId_def cont_sessionId_def
          cont_error_code_def)
qed

subsection \<open>C4: the extension reports a closed window\<close>

text \<open>
  Claim C4 fails on the code. After scenario S1, \<^verbatim>\<open>window_closed\<close> for session \<^verbatim>\<open>s1\<close>
  sets the window id of \<^verbatim>\<open>s1\<close> to null but leaves \<^verbatim>\<open>s1\<close> in the window cache, and the
  next command of \<^verbatim>\<open>s1\<close> is forwarded at once, with no \<^verbatim>\<open>create_window\<close> before it.
\<close>

theorem C4_window_closed_keeps_cache:
  "map (\<lambda>(k, session). cs_windowId session) (clientSessions st_closed) = [JNull]
   \<and> windowCache st_closed = {''s1''}
   \<and> effects (step st_closed (WsMessage 1 (Command ''r2'' ''s1'' ''get_tabs'' []) 7 no_chrome))
       = effects st_closed @ [Send 9 (ORoute ''req_3_7'' ''s1'' ''get_tabs'' [(''sessionId'', JStr ''s1'')])]"
  by (simp add: st_closed_eq handler_defs radix_values)

subsection \<open>C5: hello clears every window id\<close>

text \<open>
  Claim C5. On a \<^verbatim>\<open>hello\<close> that opens or reopens the extension connection (no other
  connection is bound), afterwards every registered session has a null window id, the
  sessions are the same ones, the window cache and the tab routes are empty, and the next
  command of any session sends exactly one message, a \<^verbatim>\<open>create_window\<close> route for that
  session to the new connection, while the command itself waits in the pending table for
  the reply.
\<close>

theorem C5_hello_clears_window_ids:
  fixes s :: state and w :: ws and pid caps now e
  assumes "\<not> bound_elsewhere w s"
  defines "s1 \<equiv> step s (WsMessage w (Hello pid caps) now e)"
  shows "(\<forall>(k, session) \<in> set (clientSessions s1). cs_windowId session = JNull)
       \<and> map fst (clientSessions s1) = map fst (clientSessions s)
       \<and> windowCache s1 = {}
       \<and> tabRouting s1 = []
       \<and> (\<forall>cw r sid cmd ps t e'.
            effects (step s1 (WsMessage cw (Command r sid cmd ps) t e'))
              = effects s1 @
                  [Send w (ORoute (fst (generateRequestId t s1)) sid ''create_window''
                             [(''sessionId'', JStr sid)])]
          \<and> map_of (pendingRequests (step s1 (WsMessage cw (Command r sid cmd ps) t e')))
                (fst (generateRequestId t s1))
              = Some \<lparr>pr_cont = AwaitCreateWindow cw r sid cmd ps, pr_timeout = t + 30000,
                      pr_sessionId = sid\<rparr>
          \<and> (\<forall>w' payload t' e''. truthy (get_windowId payload) \<longrightarrow>
                effects (step (step s1 (WsMessage cw (Command r sid cmd ps) t e'))
                           (WsMessage w' (RouteResult (Some (fst (generateRequestId t s1))) payload) t' e''))
                  = effects (step s1 (WsMessage cw (Command r sid cmd ps) t e')) @
                      [Send w (ORoute
                                 (fst (generateRequestId t' (step s1 (WsMessage cw (Command r sid cmd ps) t e'))))
                                 sid cmd (AList.update ''sessionId'' (JStr sid) ps))]))"
proof -
  let ?h = "handleExtensionHello pid caps w now s"
  have st: "s1 = ?h"
    unfolding s1_def by (rule hello_accepted [OF assms(1)])
  obtain c where c: "extensionConnection ?h = Some c" "ec_ws c = w"
    using hello_fields(5) by blast
  have nocache: "sid \<notin> windowCache ?h" for sid
    by (simp add: hello_fields)
  have cmd: "effects (step ?h (WsMessage cw (Command r sid cmd ps) t e'))
               = effects ?h @ [Send w (ORoute (fst (generateRequestId t ?h)) sid ''create_window''
                                         [(''sessionId'', JStr sid)])]
           \<and> map_of (pendingRequests (step ?h (WsMessage cw (Command r sid cmd ps) t e')))
                (fst (generateRequestId t ?h))
               = Some \<lparr>pr_cont = AwaitCreateWindow cw r sid cmd ps, pr_timeout = t + 30000,
                       pr_sessionId = sid\<rparr>"
    for cw r sid cmd ps t e'
    by (simp only: command_creates_window [OF c(1) nocache])
       (simp add: c(2) AList.update_conv')
  have bound: "extensionConnection (step ?h (WsMessage cw (Command r sid cmd ps) t e')) = Some c"
    for cw r sid cmd ps t e'
    by (simp only: command_creates_window [OF c(1) nocache]) (simp add: c(1))
  have reply: "effects (step (step ?h (WsMessage cw (Command r sid cmd ps) t e'))
                           (WsMessage w' (RouteResult (Some (fst (generateRequestId t ?h))) payload) t' e''))
                  = effects (step ?h (WsMessage cw (Command r sid cmd ps) t e')) @
                      [Send w (ORoute
                                 (fst (generateRequestId t' (step ?h (WsMessage cw (Command r sid cmd ps) t e'))))
                                 sid cmd (AList.update ''sessionId'' (JStr sid) ps))]"
    if tr: "truthy (get_windowId payload)" for cw r sid cmd ps t e' w' payload t' e''
  proof -
    have nonempty: "fst (generateRequestId t ?h) \<noteq> []"
      by (simp add: generateRequestId_def Let_def)
    have k: "pr_cont \<lparr>pr_cont = AwaitCreateWindow cw r sid cmd ps, pr_timeout = t + 30000,
                       pr_sessionId = sid\<rparr> = AwaitCreateWindow cw r sid cmd ps"
      by simp
    show ?thesis
      using window_reply_forwards [OF bound cmd [THEN conjunct2] k nonempty tr]
      by (simp only: c(2))
  qed
  have cleared: "\<forall>(k, session) \<in> set (clientSessions ?h). cs_windowId session = JNull"
    by (auto simp: hello_fields)
  have same: "map fst (clientSessions ?h) = map fst (clientSessions s)"
    by (simp add: hello_fields split_beta)
  show ?thesis
    unfolding st
  proof (intro conjI allI impI)
    show "\<forall>(k, session) \<in> set (clientSessions ?h). cs_windowId session = JNull"
      by (rule cleared)
    show "map fst (clientSessions ?h) = map fst (clientSessions s)"
      by (rule same)
    show "windowCache ?h = {}"
      by (rule hello_fields(2))
    show "tabRouting ?h = []"
      by (rule hello_fields(3))
  next
    fix cw r sid cmd ps t e'
    show "effects (step ?h (WsMessage cw (Command r sid cmd ps) t e'))
            = effects ?h @ [Send w (ORoute (fst (generateRequestId t ?h)) sid ''create_window''
                                      [(''sessionId'', JStr sid)])]"
      by (rule cmd [THEN conjunct1])
    show "map_of (pendingRequests (step ?h (WsMessage cw (Command r sid cmd ps) t e')))
                (fst (generateRequestId t ?h))
               = Some \<lparr>pr_cont = AwaitCreateWindow cw r sid cmd ps, pr_timeout = t + 30000,
                       pr_sessionId = sid\<rparr>"
      by (rule cmd [THEN conjunct2])
    fix w' payload t' e''
    assume "truthy (get_windowId payload)"
    then show "effects (step (step ?h (WsMessage cw (Command r sid cmd ps) t e'))
                           (WsMessage w' (RouteResult (Some (fst (generateRequestId t ?h))) payload) t' e''))
                  = effects (step ?h (WsMessage cw (Command r sid cmd ps) t e')) @
                      [Send w (ORoute
                                 (fst (generateRequestId t' (step ?h (WsMessage cw (Command r sid cmd ps) t e'))))
                                 sid cmd (AList.update ''sessionId'' (JStr sid) ps))]"
      by (rule reply)
  qed
qed

theorem C5_hello_clears_window_ids_witness:
  "\<not> bound_elsewhere 10 st_absent
   \<and> windowCache st_absent = {''s1''}
   \<and> map (\<lambda>(k, session). cs_windowId session) (clientSessions st_absent) = [JNum 42]
   \<and> windowCache (step st_absent ev_hello2) = {}
   \<and> tabRouting (step st_absent ev_hello2) = []
   \<and> map (\<lambda>(k, session). cs_windowId session) (clientSessions (step st_absent ev_hello2)) = [JNull]
   \<and> effects (step (step st_absent ev_hello2) ev_command2)
       = effects (step st_absent ev_hello2) @
           [Send 10 (ORoute ''req_3_8'' ''s1'' ''create_window'' [(''sessionId'', JStr ''s1'')])]
   \<and> truthy (get_windowId (Some (JObj [(''windowId'', JNum 43)])))
   \<and> effects (step (step (step st_absent ev_hello2) ev_command2) ev_window2)
       = effects (step (step st_absent ev_hello2) ev_command2) @
           [Send 10 (ORoute ''req_4_9'' ''s1'' ''get_tabs'' [(''sessionId'', JStr ''s1'')])]"
proof -
  have h: "\<not> bound_elsewhere 10 st_absent"
    by (simp add: st_absent_eq bound_elsewhere_def)
  have before: "windowCache st_absent = {''s1''}"
      "map (\<lambda>(k, session). cs_windowId session) (clientSessions st_absent) = [JNum 42]"
    by (simp_all add: st_absent_eq)
  have after: "windowCache st_rebound = {}" "tabRouting st_rebound = []"
      "map (\<lambda>(k, session). cs_windowId session) (clientSessions st_rebound) = [JNull]"
    by (simp_all add: st_rebound_eq)
  have rid: "fst (generateRequestId 8 st_rebound) = ''req_3_8''"
    by (simp add: st_rebound_eq generateRequestId_def radix_values)
  have rid2: "fst (generateRequestId 9 st_recreating) = ''req_4_9''"
    by (simp add: st_recreating_eq generateRequestId_def radix_values)
  have tr: "truthy (get_windowId (Some (JObj [(''windowId'', JNum 43)])))"
    by (simp add: truthy_def get_windowId_def)
  note t = C5_hello_clears_window_ids [OF h, of None None 7 no_chrome,
      folded ev_hello2_def st_rebound_def]
  note next_command = t [THEN conjunct2, THEN conjunct2, THEN conjunct2, THEN conjunct2, rule_format]
  have a: "effects (step st_rebound (WsMessage 1 (Command ''r2'' ''s1'' ''get_tabs'' []) 8 no_chrome))
       = effects st_rebound @
           [Send 10 (ORoute (fst (generateRequestId 8 st_rebound)) ''s1'' ''create_window''
                       [(''sessionId'', JStr ''s1'')])]"
    by (rule next_command [THEN conjunct1])
  have b: "effects (step (step st_rebound (WsMessage 1 (Command ''r2'' ''s1'' ''get_tabs'' []) 8 no_chrome))
                      (WsMessage 10 (RouteResult (Some (fst (generateRequestId 8 st_rebound)))
                                       (Some (JObj [(''windowId'', JNum 43)]))) 9 no_chrome))
       = effects (step st_rebound (WsMessage 1 (Command ''r2'' ''s1'' ''get_tabs'' []) 8 no_chrome)) @
           [Send 10 (ORoute
                       (fst (generateRequestId 9
                          (step st_rebound (WsMessage 1 (Command ''r2'' ''s1'' ''get_tabs'' []) 8 no_chrome))))
                       ''s1'' ''get_tabs'' (AList.update ''sessionId'' (JStr ''s1'') []))]"
    by (rule next_command [THEN conjunct2, THEN conjunct2, rule_format]) (rule tr)
  note a' = a [unfolded rid, folded ev_command2_def, folded st_recreating_def]
  note b' = b [unfolded rid, folded ev_command2_def ev_window2_def, folded st_recreating_def,
      unfolded rid2]
  show ?thesis
    unfolding st_rebound_def [symmetric] st_recreating_def [symmetric]
    using h before after tr a' b' by simp
qed

subsection \<open>C6: a second extension\<close>

text \<open>
  Claim C6. While an extension connection is bound, a \<^verbatim>\<open>hello\<close> on another connection
  closes that other connection with code 4000 and changes nothing else: the bound
  connection stays bound and the pending table is the same. The bound connection is one
  optional value of the state, so there is never more than one.
\<close>

theorem C6_duplicate_hello:
  assumes "extensionConnection s = Some c" and "ec_ws c \<noteq> w"
  shows "step s (WsMessage w (Hello profileId capabilities) now e) =
           s\<lparr>effects := effects s @ [CloseConn w 4000 ''Extension already connected'']\<rparr>
       \<and> extensionConnection (step s (WsMessage w (Hello profileId capabilities) now e)) = Some c
       \<and> pendingRequests (step s (WsMessage w (Hello profileId capabilities) now e)) = pendingRequests s"
  using assms by (simp add: ws_message_def)

theorem C6_duplicate_hello_witness:
  "extensionConnection st_forwarded
     = Some \<lparr>ec_ws = 9, ec_profileId = ''default'', ec_capabilities = [], ec_connectedAt = 1\<rparr>
   \<and> (9::nat) \<noteq> 10
   \<and> effects (step st_forwarded (WsMessage 10 (Hello None None) 6 no_chrome))
       = effects st_forwarded @ [CloseConn 10 4000 ''Extension already connected'']
   \<and> extensionConnection (step st_forwarded (WsMessage 10 (Hello None None) 6 no_chrome))
       = extensionConnection st_forwarded
   \<and> pendingRequests (step st_forwarded (WsMessage 10 (Hello None None) 6 no_chrome))
       = pendingRequests st_forwarded"
proof -
  have h: "extensionConnection st_forwarded
     = Some \<lparr>ec_ws = 9, ec_profileId = ''default'', ec_capabilities = [], ec_connectedAt = 1\<rparr>"
    by (simp add: st_forwarded_eq)
  have d: "ec_ws \<lparr>ec_ws = 9, ec_profileId = ''default'', ec_capabilities = [], ec_connectedAt = 1\<rparr> \<noteq> 10"
    by simp
  show ?thesis
    using C6_duplicate_hello [OF h d, of None None 6 no_chrome] h by simp
qed

subsection \<open>C7: unregister\<close>

text \<open>
  Claim C7, as amended. For a registered session, an \<^verbatim>\<open>unregister\<close> message does this: if
  the session has a window id and an extension is connected, a \<^verbatim>\<open>close_window\<close> route
  with a fresh request id is sent to the extension and no reply is awaited; the session is
  removed from the registry and from the window cache; every tab route to it is removed;
  if an extension is connected, the new session list and tab routes are sent to it. The
  pending table is left as it is: the requests of the session stay pending.
\<close>

theorem C7_unregister:
  assumes "map_of (clientSessions s) sid = Some session"
  shows "clientSessions (step s (WsMessage w (Unregister sid) now e)) = AList.delete sid (clientSessions s)
       \<and> map_of (clientSessions (step s (WsMessage w (Unregister sid) now e))) sid = None
       \<and> windowCache (step s (WsMessage w (Unregister sid) now e)) = windowCache s - {sid}
       \<and> tabRouting (step s (WsMessage w (Unregister sid) now e))
           = filter (\<lambda>(tabId, x). x \<noteq> sid) (tabRouting s)
       \<and> pendingRequests (step s (WsMessage w (Unregister sid) now e)) = pendingRequests s
       \<and> effects (step s (WsMessage w (Unregister sid) now e)) =
           effects s @
             (case extensionConnection s of
                None \<Rightarrow> []
              | Some c \<Rightarrow>
                  (if truthy (cs_windowId session)
                   then [Send (ec_ws c)
                           (ORoute (fst (generateRequestId now s)) sid ''close_window''
                              [(''sessionId'', JStr sid)])]
                   else []) @
                  [Send (ec_ws c)
                     (OSessions (getSessionList (step s (WsMessage w (Unregister sid) now e)))
                        (tabRouting (step s (WsMessage w (Unregister sid) now e))))])"
proof (cases "extensionConnection s")
  case None
  with assms show ?thesis
    by (simp add: ws_message_def handleClientMessage_def handleUnregister_def unregisterClient_def
          broadcastSessionsToExtension_def map_of_delete_same)
next
  case (Some c)
  show ?thesis
  proof (cases "truthy (cs_windowId session)")
    case True
    with Some assms show ?thesis
      by (simp add: ws_message_def handleClientMessage_def handleUnregister_def unregisterClient_def
            broadcastSessionsToExtension_def sendToExtension_def generateRequestId_def
            getSessionList_def map_of_delete_same Let_def)
  next
    case False
    with Some assms show ?thesis
      by (simp add: ws_message_def handleClientMessage_def handleUnregister_def unregisterClient_def
            broadcastSessionsToExtension_def sendToExtension_def getSessionList_def
            map_of_delete_same Let_def)
  qed
qed

text \<open>
  Session \<^verbatim>\<open>s1\<close> unregisters while its command \<^verbatim>\<open>req_2_4\<close> is in flight: the request
  is still pending afterwards and no error is sent to the client.
\<close>

theorem C7_counterexample:
  "map fst (pendingRequests (step st_forwarded (WsMessage 1 (Unregister ''s1'') 6 no_chrome))) = [''req_2_4'']
   \<and> error_codes_for 1 ''r1'' (effects (step st_forwarded (WsMessage 1 (Unregister ''s1'') 6 no_chrome))) = []"
  by (simp add: st_forwarded_eq handler_defs radix_values error_codes_for_def)

theorem C7_unregister_witness:
  "map_of (clientSessions st_forwarded) ''s1''
     = Some \<lparr>cs_sessionId = ''s1'', cs_label = ''L'', cs_ws = 1, cs_windowId = JNum 42,
              cs_registeredAt = 2, cs_lastSeen = 2\<rparr>
   \<and> clientSessions (step st_forwarded (WsMessage 1 (Unregister ''s1'') 6 no_chrome)) = []
   \<and> windowCache (step st_forwarded (WsMessage 1 (Unregister ''s1'') 6 no_chrome)) = {}
   \<and> pendingRequests (step st_forwarded (WsMessage 1 (Unregister ''s1'') 6 no_chrome))
       = pendingRequests st_forwarded
   \<and> effects (step st_forwarded (WsMessage 1 (Unregister ''s1'') 6 no_chrome))
       = effects st_forwarded @
           [Send 9 (ORoute ''req_3_6'' ''s1'' ''close_window'' [(''sessionId'', JStr ''s1'')]),
            Send 9 (OSessions [] [])]"
proof -
  have h: "map_of (clientSessions st_forwarded) ''s1''
     = Some \<lparr>cs_sessionId = ''s1'', cs_label = ''L'', cs_ws = 1, cs_windowId = JNum 42,
              cs_registeredAt = 2, cs_lastSeen = 2\<rparr>"
    by (simp add: st_forwarded_eq)
  have f: "clientSessions st_forwarded
             = [(''s1'', \<lparr>cs_sessionId = ''s1'', cs_label = ''L'', cs_ws = 1, cs_windowId = JNum 42,
                          cs_registeredAt = 2, cs_lastSeen = 2\<rparr>)]"
      "windowCache st_forwarded = {''s1''}" "tabRouting st_forwarded = []"
      "extensionConnection st_forwarded
         = Some \<lparr>ec_ws = 9, ec_profileId = ''default'', ec_capabilities = [], ec_connectedAt = 1\<rparr>"
      "fst (generateRequestId 6 st_forwarded) = ''req_3_6''"
    by (simp_all add: st_forwarded_eq generateRequestId_def radix_values)
  have c: "clientSessions (step st_forwarded (WsMessage 1 (Unregister ''s1'') 6 no_chrome)) = []"
    using C7_unregister [OF h, of 1 6 no_chrome] by (simp add: f)
  show ?thesis
    using C7_unregister [OF h, of 1 6 no_chrome] h c
    by (simp add: f truthy_def getSessionList_def)
qed

subsection \<open>C8: the sweeper\<close>




subsection \<open>C9: the session a route is sent under\<close>

text \<open>
  Claim C9, as amended. The daemon forwards each command under the session id stated in
  the \<^verbatim>\<open>sessionId\<close> field of that \<^verbatim>\<open>command\<close> message; it does not compare the id with the
  session registered on the connection the message came in on. Command by command, for a
  \<^verbatim>\<open>command\<close> message with reqId \<open>r\<close>, session \<open>sid\<close>, command \<open>cmd\<close> and params \<open>ps\<close> that
  arrives on connection \<open>cw\<close>:

  \<^item> while an extension is bound, the one message sent is a route under \<open>sid\<close>
    (\<^verbatim>\<open>create_window\<close> with params \<open>{sessionId: sid}\<close> when \<open>sid\<close> has no window in the cache,
    else \<open>cmd\<close> with \<open>ps\<close> and \<open>sessionId\<close> set to \<open>sid\<close>, overwriting a \<open>sessionId\<close> the client
    put there), and the entry parked for the reply holds \<open>cw\<close>, \<open>r\<close>, \<open>sid\<close>, \<open>cmd\<close> and \<open>ps\<close>;
  \<^item> while no extension is bound, either the client is told so or the command waits with
    these same five values;
  \<^item> when an extension is found bound while the command waits, the daemon goes on as if
    the command had just arrived with the five values of the waiter;
  \<^item> when the \<^verbatim>\<open>create_window\<close> sub-request parked for the command is answered with a
    window, the one message sent is the route of \<open>cmd\<close> under \<open>sid\<close>, with \<open>ps\<close> and
    \<open>sessionId\<close> set to \<open>sid\<close>.

  And over every run of the daemon from its initial state: every \<^verbatim>\<open>route\<close> message sent
  carries a session id that a received \<^verbatim>\<open>command\<close> or \<^verbatim>\<open>unregister\<close> message named, with
  that same id in its params; every \<^verbatim>\<open>route\<close> is either the \<^verbatim>\<open>close_window\<close> of an
  \<^verbatim>\<open>unregister\<close> message received, under the id that message names, or the
  \<^verbatim>\<open>create_window\<close> or the forwarded command of one \<^verbatim>\<open>command\<close> message received, under
  the id that message names; every response and error sent to a client goes to the
  connection, with the reqId and the session id, of one \<^verbatim>\<open>command\<close> message received; and
  every parked entry and every waiting command holds the values of one \<^verbatim>\<open>command\<close> message
  received.
\<close>

theorem C9_routes_carry_message_session:
  "(\<forall>a \<in> set (effects (run init es)). route_carries (sessions_named es) a)
   \<and> (\<forall>a \<in> set (effects (run init es)).
         action_from (commands_received es) (sessions_unregistered es) a)
   \<and> (\<forall>(rid, p) \<in> set (pendingRequests (run init es)). cont_from (commands_received es) (pr_cont p))
   \<and> (\<forall>wt \<in> set (connectWaiters (run init es)). waiter_from (commands_received es) wt)
   \<and> (\<forall>c. extensionConnection s = Some c \<longrightarrow>
         step s (WsMessage cw (Command r sid cmd ps) t e) =
           s\<lparr>requestIdCounter := requestIdCounter s + 1,
             pendingRequests :=
               AList.update (fst (generateRequestId t s))
                 \<lparr>pr_cont = (if sid \<in> windowCache s then AwaitCommand cw r sid
                              else AwaitCreateWindow cw r sid cmd ps),
                  pr_timeout = t + 30000, pr_sessionId = sid\<rparr> (pendingRequests s),
             effects := effects s @
               [Send (ec_ws c)
                  (ORoute (fst (generateRequestId t s)) sid
                     (if sid \<in> windowCache s then cmd else ''create_window'')
                     (if sid \<in> windowCache s then AList.update ''sessionId'' (JStr sid) ps
                      else [(''sessionId'', JStr sid)]))]\<rparr>)
   \<and> (extensionConnection s = None \<longrightarrow>
         step s (WsMessage cw (Command r sid cmd ps) t e) =
           (if fst (startChrome e s)
            then (snd (startChrome e s))
                   \<lparr>connectWaiters := connectWaiters s @
                      [\<lparr>w_clientWs = cw, w_reqId = r, w_sessionId = sid, w_command = cmd,
                        w_params = ps, w_startTime = t\<rparr>]\<rparr>
            else s\<lparr>effects := effects s @ [not_connected_error cw r sid]\<rparr>))
   \<and> (\<forall>c n now e'. extensionConnection s = Some c \<longrightarrow> n < length (connectWaiters s) \<longrightarrow>
         int now - int (w_startTime (connectWaiters s ! n)) < 15000 \<longrightarrow>
         step s (ConnectPollTimer n now)
           = step (s\<lparr>connectWaiters := take n (connectWaiters s) @ drop (Suc n) (connectWaiters s)\<rparr>)
               (WsMessage (w_clientWs (connectWaiters s ! n))
                  (Command (w_reqId (connectWaiters s ! n)) (w_sessionId (connectWaiters s ! n))
                     (w_command (connectWaiters s ! n)) (w_params (connectWaiters s ! n)))
                  now e'))
   \<and> (\<forall>c rid p w' payload t' e'.
         extensionConnection s = Some c \<longrightarrow> map_of (pendingRequests s) rid = Some p \<longrightarrow>
         pr_cont p = AwaitCreateWindow cw r sid cmd ps \<longrightarrow> rid \<noteq> [] \<longrightarrow>
         truthy (get_windowId payload) \<longrightarrow>
         effects (step s (WsMessage w' (RouteResult (Some rid) payload) t' e'))
           = effects s @
               [Send (ec_ws c)
                  (ORoute (fst (generateRequestId t' s)) sid cmd
                     (AList.update ''sessionId'' (JStr sid) ps))])"
proof -
  have "isolation_inv (sessions_named es) init"
    by (simp add: isolation_inv_def init_def)
  then have "isolation_inv (sessions_named es) (run init es)"
    by (rule isolation_run) simp
  then have named: "\<forall>a \<in> set (effects (run init es)). route_carries (sessions_named es) a"
    by (simp add: isolation_inv_def)
  have o: "origin_inv (commands_received es) (sessions_unregistered es) (run init es)"
    by (rule origin_reachable)
  have sent: "\<forall>a \<in> set (effects (run init es)).
         action_from (commands_received es) (sessions_unregistered es) a"
    and parked: "\<forall>(rid, p) \<in> set (pendingRequests (run init es)).
         cont_from (commands_received es) (pr_cont p)"
    and waiting: "\<forall>wt \<in> set (connectWaiters (run init es)). waiter_from (commands_received es) wt"
    using o [unfolded origin_inv_def] by simp_all
  have bound: "\<forall>c. extensionConnection s = Some c \<longrightarrow>
         step s (WsMessage cw (Command r sid cmd ps) t e) =
           s\<lparr>requestIdCounter := requestIdCounter s + 1,
             pendingRequests :=
               AList.update (fst (generateRequestId t s))
                 \<lparr>pr_cont = (if sid \<in> windowCache s then AwaitCommand cw r sid
                              else AwaitCreateWindow cw r sid cmd ps),
                  pr_timeout = t + 30000, pr_sessionId = sid\<rparr> (pendingRequests s),
             effects := effects s @
               [Send (ec_ws c)
                  (ORoute (fst (generateRequestId t s)) sid
                     (if sid \<in> windowCache s then cmd else ''create_window'')
                     (if sid \<in> windowCache s then AList.update ''sessionId'' (JStr sid) ps
                      else [(''sessionId'', JStr sid)]))]\<rparr>"
  proof (intro allI impI)
    fix c
    assume c: "extensionConnection s = Some c"
    show "step s (WsMessage cw (Command r sid cmd ps) t e) =
           s\<lparr>requestIdCounter := requestIdCounter s + 1,
             pendingRequests :=
               AList.update (fst (generateRequestId t s))
                 \<lparr>pr_cont = (if sid \<in> windowCache s then AwaitCommand cw r sid
                              else AwaitCreateWindow cw r sid cmd ps),
                  pr_timeout = t + 30000, pr_sessionId = sid\<rparr> (pendingRequests s),
             effects := effects s @
               [Send (ec_ws c)
                  (ORoute (fst (generateRequestId t s)) sid
                     (if sid \<in> windowCache s then cmd else ''create_window'')
                     (if sid \<in> windowCache s then AList.update ''sessionId'' (JStr sid) ps
                      else [(''sessionId'', JStr sid)]))]\<rparr>"
      unfolding command_bound [OF c] by (rule connected_state [OF c])
  qed
  have unbound: "extensionConnection s = None \<longrightarrow>
         step s (WsMessage cw (Command r sid cmd ps) t e) =
           (if fst (startChrome e s)
            then (snd (startChrome e s))
                   \<lparr>connectWaiters := connectWaiters s @
                      [\<lparr>w_clientWs = cw, w_reqId = r, w_sessionId = sid, w_command = cmd,
                        w_params = ps, w_startTime = t\<rparr>]\<rparr>
            else s\<lparr>effects := effects s @ [not_connected_error cw r sid]\<rparr>)"
    by (intro impI) (rule command_unbound)
  have polled: "\<forall>c n now e'. extensionConnection s = Some c \<longrightarrow> n < length (connectWaiters s) \<longrightarrow>
         int now - int (w_startTime (connectWaiters s ! n)) < 15000 \<longrightarrow>
         step s (ConnectPollTimer n now)
           = step (s\<lparr>connectWaiters := take n (connectWaiters s) @ drop (Suc n) (connectWaiters s)\<rparr>)
               (WsMessage (w_clientWs (connectWaiters s ! n))
                  (Command (w_reqId (connectWaiters s ! n)) (w_sessionId (connectWaiters s ! n))
                     (w_command (connectWaiters s ! n)) (w_params (connectWaiters s ! n)))
                  now e')"
    by (intro allI impI) (rule poll_connected)
  have replied: "\<forall>c rid p w' payload t' e'.
         extensionConnection s = Some c \<longrightarrow> map_of (pendingRequests s) rid = Some p \<longrightarrow>
         pr_cont p = AwaitCreateWindow cw r sid cmd ps \<longrightarrow> rid \<noteq> [] \<longrightarrow>
         truthy (get_windowId payload) \<longrightarrow>
         effects (step s (WsMessage w' (RouteResult (Some rid) payload) t' e'))
           = effects s @
               [Send (ec_ws c)
                  (ORoute (fst (generateRequestId t' s)) sid cmd
                     (AList.update ''sessionId'' (JStr sid) ps))]"
    by (intro allI impI) (rule window_reply_forwards)
  show ?thesis
    by (intro conjI) (fact named sent parked waiting bound unbound polled replied)+
qed

text \<open>
  Sessions \<^verbatim>\<open>s1\<close> (connection 1) and \<^verbatim>\<open>s2\<close> (connection 2) are registered. A command that
  names \<^verbatim>\<open>s2\<close> arrives on connection 1: a route under \<^verbatim>\<open>s2\<close> goes to the extension.
\<close>

theorem C9_counterexample:
  "map (\<lambda>(k, session). (k, cs_ws session)) (clientSessions st_two) = [(''s1'', 1), (''s2'', 2)]
   \<and> effects (step st_two (WsMessage 1 (Command ''r1'' ''s2'' ''get_tabs'' []) 4 no_chrome))
       = effects st_two @ [Send 9 (ORoute ''req_1_4'' ''s2'' ''create_window'' [(''sessionId'', JStr ''s2'')])]"
  by (simp add: st_two_eq handler_defs radix_values)

theorem C9_routes_carry_message_session_witness:
  "ev_cross = WsMessage 1 (Command ''r1'' ''s2'' ''get_tabs'' []) 4 no_chrome
   \<and> extensionConnection st_two
       = Some \<lparr>ec_ws = 9, ec_profileId = ''default'', ec_capabilities = [], ec_connectedAt = 1\<rparr>
   \<and> effects (step st_two ev_cross)
       = effects st_two @ [Send 9 (ORoute ''req_1_4'' ''s2'' ''create_window'' [(''sessionId'', JStr ''s2'')])]
   \<and> pendingRequests (step st_two ev_cross)
       = [(''req_1_4'', \<lparr>pr_cont = AwaitCreateWindow 1 ''r1'' ''s2'' ''get_tabs'' [],
                         pr_timeout = 30004, pr_sessionId = ''s2''\<rparr>)]
   \<and> run init [ev_hello, ev_register, ev_register2, ev_cross] = step st_two ev_cross
   \<and> Send 9 (ORoute ''req_1_4'' ''s2'' ''create_window'' [(''sessionId'', JStr ''s2'')])
       \<in> set (effects (run init [ev_hello, ev_register, ev_register2, ev_cross]))
   \<and> route_carries {''s2''}
        (Send 9 (ORoute ''req_1_4'' ''s2'' ''create_window'' [(''sessionId'', JStr ''s2'')]))
   \<and> route_from {(1, ''r1'', ''s2'', ''get_tabs'', [])} {} ''s2'' ''create_window''
        [(''sessionId'', JStr ''s2'')]
   \<and> cont_from {(1, ''r1'', ''s2'', ''get_tabs'', [])} (AwaitCreateWindow 1 ''r1'' ''s2'' ''get_tabs'' [])
   \<and> extensionConnection init = None
   \<and> connectWaiters (step init ev_command_chrome)
       = [\<lparr>w_clientWs = 1, w_reqId = ''r1'', w_sessionId = ''s1'', w_command = ''navigate'',
           w_params = [], w_startTime = 3\<rparr>]
   \<and> waiter_from {(1, ''r1'', ''s1'', ''navigate'', [])}
        \<lparr>w_clientWs = 1, w_reqId = ''r1'', w_sessionId = ''s1'', w_command = ''navigate'',
          w_params = [], w_startTime = 3\<rparr>
   \<and> extensionConnection st_waiting_bound
       = Some \<lparr>ec_ws = 9, ec_profileId = ''default'', ec_capabilities = [], ec_connectedAt = 400\<rparr>
   \<and> step st_waiting_bound (ConnectPollTimer 0 503)
       = step (st_waiting_bound\<lparr>connectWaiters := []\<rparr>)
           (WsMessage 1 (Command ''r1'' ''s1'' ''navigate'' []) 503 no_chrome)
   \<and> effects (step st_creating ev_window)
       = effects st_creating @
           [Send 9 (ORoute ''req_2_4'' ''s1'' ''navigate''
                      [(''url'', JStr ''https://example.com''), (''sessionId'', JStr ''s1'')])]"
proof -
  let ?c = "\<lparr>ec_ws = 9, ec_profileId = ''default'', ec_capabilities = [], ec_connectedAt = 1\<rparr>"
  let ?es = "[ev_hello, ev_register, ev_register2, ev_cross]"
  let ?route = "Send 9 (ORoute ''req_1_4'' ''s2'' ''create_window'' [(''sessionId'', JStr ''s2'')])"
  let ?p = "\<lparr>pr_cont = AwaitCreateWindow 1 ''r1'' ''s2'' ''get_tabs'' [],
             pr_timeout = 30004, pr_sessionId = ''s2''\<rparr>"
  let ?wt = "\<lparr>w_clientWs = 1, w_reqId = ''r1'', w_sessionId = ''s1'', w_command = ''navigate'',
              w_params = [], w_startTime = 3\<rparr>"
  have x: "extensionConnection st_two = Some ?c"
    and g: "fst (generateRequestId 4 st_two) = ''req_1_4''"
    and wc: "windowCache st_two = {}"
    and pe: "pendingRequests st_two = []"
    by (simp_all add: st_two_eq generateRequestId_def radix_values)
  have raw: "step st_two (WsMessage 1 (Command ''r1'' ''s2'' ''get_tabs'' []) 4 no_chrome) =
           st_two\<lparr>requestIdCounter := requestIdCounter st_two + 1,
             pendingRequests :=
               AList.update (fst (generateRequestId 4 st_two))
                 \<lparr>pr_cont = (if ''s2'' \<in> windowCache st_two then AwaitCommand 1 ''r1'' ''s2''
                              else AwaitCreateWindow 1 ''r1'' ''s2'' ''get_tabs'' []),
                  pr_timeout = 4 + 30000, pr_sessionId = ''s2''\<rparr> (pendingRequests st_two),
             effects := effects st_two @
               [Send (ec_ws ?c)
                  (ORoute (fst (generateRequestId 4 st_two)) ''s2''
                     (if ''s2'' \<in> windowCache st_two then ''get_tabs'' else ''create_window'')
                     (if ''s2'' \<in> windowCache st_two then AList.update ''sessionId'' (JStr ''s2'') []
                      else [(''sessionId'', JStr ''s2'')]))]\<rparr>"
    by (rule C9_routes_carry_message_session [THEN conjunct2, THEN conjunct2, THEN conjunct2,
               THEN conjunct2, THEN conjunct1, rule_format, OF x])
  have w1: "effects (step st_two ev_cross) = effects st_two @ [?route]"
    unfolding ev_cross_def raw g wc by simp
  have w2: "pendingRequests (step st_two ev_cross) = [(''req_1_4'', ?p)]"
    unfolding ev_cross_def raw g wc pe by simp
  have r: "run init ?es = step st_two ev_cross"
    by (simp only: run_def foldl.simps st_two_def st_registered_def st_bound_def)
  have m: "?route \<in> set (effects (run init ?es))"
    unfolding r w1 by simp
  have q: "(''req_1_4'', ?p) \<in> set (pendingRequests (run init ?es))"
    unfolding r w2 by simp
  have n: "sessions_named ?es = {''s2''}"
    and cr: "commands_received ?es = {(1, ''r1'', ''s2'', ''get_tabs'', [])}"
    and un: "sessions_unregistered ?es = {}"
    by (simp_all add: sessions_named_def commands_received_def sessions_unregistered_def
          ev_hello_def ev_register_def ev_register2_def ev_cross_def)
  note a = C9_routes_carry_message_session [where es = ?es]
  have w3: "route_carries {''s2''} ?route"
    using bspec [OF a [THEN conjunct1] m] unfolding n .
  have w4: "route_from {(1, ''r1'', ''s2'', ''get_tabs'', [])} {} ''s2'' ''create_window''
        [(''sessionId'', JStr ''s2'')]"
    using bspec [OF a [THEN conjunct2, THEN conjunct1] m] unfolding cr un
    by (simp add: action_from_def)
  have w5: "cont_from {(1, ''r1'', ''s2'', ''get_tabs'', [])} (AwaitCreateWindow 1 ''r1'' ''s2'' ''get_tabs'' [])"
    using bspec [OF a [THEN conjunct2, THEN conjunct2, THEN conjunct1] q] unfolding cr
    by simp
  have i: "extensionConnection init = None"
    by (simp add: init_def)
  have sc: "fst (startChrome with_chrome init)"
    and cw0: "connectWaiters init = []"
    by (simp_all add: init_def with_chrome_def handler_defs)
  have raw2: "step init (WsMessage 1 (Command ''r1'' ''s1'' ''navigate'' []) 3 with_chrome) =
           (if fst (startChrome with_chrome init)
            then (snd (startChrome with_chrome init))
                   \<lparr>connectWaiters := connectWaiters init @
                      [\<lparr>w_clientWs = 1, w_reqId = ''r1'', w_sessionId = ''s1'', w_command = ''navigate'',
                        w_params = [], w_startTime = 3\<rparr>]\<rparr>
            else init\<lparr>effects := effects init @ [not_connected_error 1 ''r1'' ''s1'']\<rparr>)"
    by (rule C9_routes_carry_message_session [THEN conjunct2, THEN conjunct2, THEN conjunct2,
               THEN conjunct2, THEN conjunct2, THEN conjunct1, rule_format, OF i])
  have w6: "connectWaiters (step init ev_command_chrome) = [?wt]"
    unfolding ev_command_chrome_def raw2 using sc by (simp add: cw0)
  have r2: "run init [ev_command_chrome] = step init ev_command_chrome"
    by (simp only: run_def foldl.simps)
  have m2: "?wt \<in> set (connectWaiters (run init [ev_command_chrome]))"
    unfolding r2 w6 by simp
  have cr2: "commands_received [ev_command_chrome] = {(1, ''r1'', ''s1'', ''navigate'', [])}"
    by (simp add: commands_received_def ev_command_chrome_def)
  have w7: "waiter_from {(1, ''r1'', ''s1'', ''navigate'', [])} ?wt"
    using bspec [OF C9_routes_carry_message_session [where es = "[ev_command_chrome]",
                      THEN conjunct2, THEN conjunct2, THEN conjunct2, THEN conjunct1] m2]
    unfolding cr2 .
  let ?d = "\<lparr>ec_ws = 9, ec_profileId = ''default'', ec_capabilities = [], ec_connectedAt = 400\<rparr>"
  have xb: "extensionConnection st_waiting_bound = Some ?d"
    and wb: "connectWaiters st_waiting_bound = [?wt]"
    by (simp_all add: st_waiting_bound_eq)
  have lb: "0 < length (connectWaiters st_waiting_bound)"
    and tb: "int 503 - int (w_startTime (connectWaiters st_waiting_bound ! 0)) < 15000"
    by (simp_all add: wb)
  have raw3: "step st_waiting_bound (ConnectPollTimer 0 503)
           = step (st_waiting_bound\<lparr>connectWaiters :=
                     take 0 (connectWaiters st_waiting_bound) @ drop (Suc 0) (connectWaiters st_waiting_bound)\<rparr>)
               (WsMessage (w_clientWs (connectWaiters st_waiting_bound ! 0))
                  (Command (w_reqId (connectWaiters st_waiting_bound ! 0))
                     (w_sessionId (connectWaiters st_waiting_bound ! 0))
                     (w_command (connectWaiters st_waiting_bound ! 0))
                     (w_params (connectWaiters st_waiting_bound ! 0)))
                  503 no_chrome)"
    by (rule C9_routes_carry_message_session [THEN conjunct2, THEN conjunct2, THEN conjunct2,
               THEN conjunct2, THEN conjunct2, THEN conjunct2, THEN conjunct1, rule_format,
               OF xb lb tb])
  have w8: "step st_waiting_bound (ConnectPollTimer 0 503)
       = step (st_waiting_bound\<lparr>connectWaiters := []\<rparr>)
           (WsMessage 1 (Command ''r1'' ''s1'' ''navigate'' []) 503 no_chrome)"
    using raw3 by (simp only: wb take_0 drop_Suc_Cons drop_0 append_Nil nth_Cons_0 waiter.simps)
  let ?q = "\<lparr>pr_cont = AwaitCreateWindow 1 ''r1'' ''s1'' ''navigate''
                          [(''url'', JStr ''https://example.com'')],
              pr_timeout = 30003, pr_sessionId = ''s1''\<rparr>"
  have xc: "extensionConnection st_creating = Some ?c"
    and gc: "fst (generateRequestId 4 st_creating) = ''req_2_4''"
    and hc: "map_of (pendingRequests st_creating) ''req_1_3'' = Some ?q"
    by (simp_all add: st_creating_eq generateRequestId_def radix_values)
  have k: "pr_cont ?q = AwaitCreateWindow 1 ''r1'' ''s1'' ''navigate''
                          [(''url'', JStr ''https://example.com'')]"
    and ne: "''req_1_3'' \<noteq> []"
    and tr: "truthy (get_windowId (Some (JObj [(''windowId'', JNum 42)])))"
    by (simp_all add: get_windowId_def truthy_def)
  have raw4: "effects (step st_creating
                  (WsMessage 9 (RouteResult (Some ''req_1_3'') (Some (JObj [(''windowId'', JNum 42)])))
                     4 no_chrome))
           = effects st_creating @
               [Send (ec_ws ?c)
                  (ORoute (fst (generateRequestId 4 st_creating)) ''s1'' ''navigate''
                     (AList.update ''sessionId'' (JStr ''s1'') [(''url'', JStr ''https://example.com'')]))]"
    by (rule C9_routes_carry_message_session [THEN conjunct2, THEN conjunct2, THEN conjunct2,
               THEN conjunct2, THEN conjunct2, THEN conjunct2, THEN conjunct2, rule_format,
               OF xc hc k ne tr])
  have w9: "effects (step st_creating ev_window)
       = effects st_creating @
           [Send 9 (ORoute ''req_2_4'' ''s1'' ''navigate''
                      [(''url'', JStr ''https://example.com''), (''sessionId'', JStr ''s1'')])]"
    unfolding ev_window_def raw4 gc by simp
  show ?thesis
    by (intro conjI) (fact ev_cross_def x w1 w2 r m w3 w4 w5 i w6 w7 xb w8 w9)+
qed

subsection \<open>C10: replies are correlated by request id alone\<close>

text \<open>
  Claim C10. A \<^verbatim>\<open>route_result\<close> or an \<^verbatim>\<open>error\<close> message whose reqId is in the pending
  table settles that request, whatever connection delivers it: the entry is removed, and
  then the closure is resumed with the payload of the message, or rejected with its error
  text. The state that results does not depend on the connection. The entry is gone when
  the closure runs, and, request ids being fresh, it is still gone afterwards, so that
  a second message with the same reqId changes nothing.
\<close>

theorem C10_correlation_by_reqId:
  assumes "map_of (pendingRequests s) rid = Some p" and "rid \<noteq> []"
  shows "step s (WsMessage w (RouteResult (Some rid) payload) now e)
           = resume_resolve (pr_cont p) payload now
               (s\<lparr>pendingRequests := AList.delete rid (pendingRequests s)\<rparr>)
       \<and> step s (WsMessage w (ErrorMsg (Some rid) em) now e)
           = resume_reject (pr_cont p)
               (case em of Some msg \<Rightarrow> (if msg \<noteq> [] then msg else ''Unknown error'')
                         | None \<Rightarrow> ''Unknown error'')
               (s\<lparr>pendingRequests := AList.delete rid (pendingRequests s)\<rparr>)
       \<and> (\<forall>w' e'. step s (WsMessage w' (RouteResult (Some rid) payload) now e')
                    = step s (WsMessage w (RouteResult (Some rid) payload) now e)
                \<and> step s (WsMessage w' (ErrorMsg (Some rid) em) now e')
                    = step s (WsMessage w (ErrorMsg (Some rid) em) now e))
       \<and> map_of (pendingRequests (s\<lparr>pendingRequests := AList.delete rid (pendingRequests s)\<rparr>)) rid = None
       \<and> (ids_fresh s \<longrightarrow>
            (\<forall>w' payload' now' e'.
               step (step s (WsMessage w (RouteResult (Some rid) payload) now e))
                    (WsMessage w' (RouteResult (Some rid) payload') now' e')
                 = step s (WsMessage w (RouteResult (Some rid) payload) now e))
          \<and> (\<forall>w' payload' now' e'.
               step (step s (WsMessage w (ErrorMsg (Some rid) em) now e))
                    (WsMessage w' (RouteResult (Some rid) payload') now' e')
                 = step s (WsMessage w (ErrorMsg (Some rid) em) now e)))"
proof -
  let ?s1 = "s\<lparr>pendingRequests := AList.delete rid (pendingRequests s)\<rparr>"
  let ?msg = "case em of Some msg \<Rightarrow> (if msg \<noteq> [] then msg else ''Unknown error'')
                       | None \<Rightarrow> ''Unknown error''"
  have res: "ws_message w' (RouteResult (Some rid) payload) now e' s
               = resume_resolve (pr_cont p) payload now ?s1" for w' e'
    using assms
    by (simp add: ws_message_def handleExtensionMessage_def handleRouteResult_def Let_def)
  have rej: "ws_message w' (ErrorMsg (Some rid) em) now e' s = resume_reject (pr_cont p) ?msg ?s1"
    for w' e'
    using assms
    by (simp add: ws_message_def handleExtensionMessage_def handleExtensionError_def
          handleRouteResult_def Let_def)
  have gone: "map_of (pendingRequests ?s1) rid = None"
    by (simp add: map_of_delete_same)
  have again: "ws_message w' (RouteResult (Some rid) payload') now' e' st = st"
    if "map_of (pendingRequests st) rid = None" for w' payload' now' e' st
    using that by (simp add: ws_message_def handleExtensionMessage_def route_result_unknown)
  have once_res: "ws_message w' (RouteResult (Some rid) payload') now' e'
                    (resume_resolve (pr_cont p) payload now ?s1)
                  = resume_resolve (pr_cont p) payload now ?s1"
    if "ids_fresh s" for w' payload' now' e'
    by (rule again) (rule settled_stays_gone [OF that assms(1)])
  have once_rej: "ws_message w' (RouteResult (Some rid) payload') now' e'
                    (resume_reject (pr_cont p) ?msg ?s1)
                  = resume_reject (pr_cont p) ?msg ?s1" for w' payload' now' e'
    by (rule again) (simp add: resume_reject_eq map_of_delete_same)
  show ?thesis
    using gone once_res once_rej by (simp add: res rej)
qed

theorem C10_correlation_by_reqId_witness:
  "map_of (pendingRequests st_forwarded) ''req_2_4''
     = Some \<lparr>pr_cont = AwaitCommand 1 ''r1'' ''s1'', pr_timeout = 30004, pr_sessionId = ''s1''\<rparr>
   \<and> ''req_2_4'' \<noteq> []
   \<and> ids_fresh st_forwarded
   \<and> step st_forwarded (WsMessage 1 (RouteResult (Some ''req_2_4'') (Some (JObj [(''success'', JBool True)]))) 5 no_chrome)
       = st_done
   \<and> step st_forwarded (WsMessage 9 (RouteResult (Some ''req_2_4'') (Some (JObj [(''success'', JBool True)]))) 5 no_chrome)
       = st_done
   \<and> step st_done (WsMessage 1 (RouteResult (Some ''req_2_4'') None) 6 no_chrome) = st_done"
proof -
  have h: "map_of (pendingRequests st_forwarded) ''req_2_4''
     = Some \<lparr>pr_cont = AwaitCommand 1 ''r1'' ''s1'', pr_timeout = 30004, pr_sessionId = ''s1''\<rparr>"
    by (simp add: st_forwarded_eq)
  have n: "''req_2_4'' \<noteq> []"
    by simp
  have r: "st_forwarded = run init [ev_hello, ev_register, ev_command, ev_window]"
    by (simp add: run_def st_forwarded_def st_creating_def st_registered_def st_bound_def)
  have f: "ids_fresh st_forwarded"
    unfolding r by (rule fresh_reachable)
  have d: "st_done = step st_forwarded
             (WsMessage 9 (RouteResult (Some ''req_2_4'') (Some (JObj [(''success'', JBool True)]))) 5 no_chrome)"
    by (simp add: st_done_def ev_result_def)
  show ?thesis
    using C10_correlation_by_reqId [OF h n, of 9 "Some (JObj [(''success'', JBool True)])" 5 no_chrome None]
      h f
    unfolding d [symmetric] by simp
qed

end
